theory Spec2Isabelle
  imports Complex_Main
begin

section \<open>JavaScript values used by the renderers\<close>

text \<open>
  A JavaScript number is an IEEE-754 binary64 value: a finite number, \<^verbatim>\<open>Infinity\<close>,
  \<^verbatim>\<open>-Infinity\<close> or \<^verbatim>\<open>NaN\<close>. A finite number is modelled as a real, and an operation on
  finite numbers gives its exact result, except that a result whose magnitude reaches
  \<open>2^1024 - 2^970\<close> (half a unit in the last place above \<^verbatim>\<open>Number.MAX_VALUE\<close>) is the
  infinity of its sign, as rounding to nearest gives; the rounding of a result in range
  and the sign of zero are not modelled. \<^verbatim>\<open>NaN\<close> is \<open>None\<close> of \<open>jsnum\<close>; infinities and
  \<^verbatim>\<open>NaN\<close> propagate through arithmetic as in IEEE 754. An optional field of a record
  (\<^verbatim>\<open>pl_orbeccen?: number\<close>) is a \<open>real option\<close> with \<open>None\<close> for \<^verbatim>\<open>undefined\<close>; the numbers
  given in records and props are finite. The orbit loop of OrbitalPaths computes in
  \<open>jsnum\<close>; the radii, scene coordinates and camera poses of the other components stay
  far from the range limit and are reals.
\<close>

datatype number = Finite real | PosInfinity | NegInfinity

type_synonym jsnum = "number option"

definition Num :: "real \<Rightarrow> jsnum" where
  "Num r = Some (Finite r)"

definition MAX_VALUE :: real where
  "MAX_VALUE = (2 ^ 53 - 1) * 2 ^ 971"

definition overflow_threshold :: real where
  "overflow_threshold = 2 ^ 1024 - 2 ^ 970"

text \<open>The value of an operation on finite numbers whose exact result is \<open>r\<close>.\<close>

definition js_result :: "real \<Rightarrow> jsnum" where
  "js_result r =
     (if overflow_threshold \<le> r then Some PosInfinity
      else if r \<le> - overflow_threshold then Some NegInfinity
      else Some (Finite r))"

fun sign_of :: "number \<Rightarrow> real" where
  "sign_of (Finite r) = sgn r"
| "sign_of PosInfinity = 1"
| "sign_of NegInfinity = - 1"

text \<open>The infinity of a sign; zero times an infinity is \<^verbatim>\<open>NaN\<close>.\<close>

definition infinity_of :: "real \<Rightarrow> jsnum" where
  "infinity_of s = (if s = 0 then None else if 0 < s then Some PosInfinity else Some NegInfinity)"

fun js_times :: "jsnum \<Rightarrow> jsnum \<Rightarrow> jsnum" where
  "js_times (Some (Finite p)) (Some (Finite q)) = js_result (p * q)"
| "js_times (Some u) (Some v) = infinity_of (sign_of u * sign_of v)"
| "js_times u v = None"

fun js_plus :: "jsnum \<Rightarrow> jsnum \<Rightarrow> jsnum" where
  "js_plus (Some (Finite p)) (Some (Finite q)) = js_result (p + q)"
| "js_plus (Some (Finite p)) (Some v) = Some v"
| "js_plus (Some u) (Some (Finite q)) = Some u"
| "js_plus (Some u) (Some v) = (if u = v then Some u else None)"
| "js_plus u v = None"

fun js_negate :: "jsnum \<Rightarrow> jsnum" where
  "js_negate (Some (Finite p)) = Some (Finite (- p))"
| "js_negate (Some PosInfinity) = Some NegInfinity"
| "js_negate (Some NegInfinity) = Some PosInfinity"
| "js_negate None = None"

definition js_minus :: "jsnum \<Rightarrow> jsnum \<Rightarrow> jsnum" where
  "js_minus u v = js_plus u (js_negate v)"

fun Math_sqrt :: "jsnum \<Rightarrow> jsnum" where
  "Math_sqrt (Some (Finite r)) = (if r < 0 then None else Some (Finite (sqrt r)))"
| "Math_sqrt (Some PosInfinity) = Some PosInfinity"
| "Math_sqrt (Some NegInfinity) = None"
| "Math_sqrt None = None"

text \<open>\<^verbatim>\<open>v || d\<close> on an optional number: \<^verbatim>\<open>undefined\<close> and \<^verbatim>\<open>0\<close> are falsy.\<close>

definition truthy :: "real option \<Rightarrow> bool" where
  "truthy v = (case v of None \<Rightarrow> False | Some r \<Rightarrow> r \<noteq> 0)"

definition or_default :: "real option \<Rightarrow> real \<Rightarrow> real" where
  "or_default v d = (case v of None \<Rightarrow> d | Some r \<Rightarrow> (if r = 0 then d else r))"

datatype 'n Vector3 = Vector3 (vx: 'n) (vy: 'n) (vz: 'n)

section \<open>OrbitalPaths.tsx: the orbit point loop\<close>

record OrbitData =
  plname :: "string option"
  pl_orbsmax :: "real option"
  pl_orbeccen :: "real option"
  pl_orbincl :: "real option"
  pl_orblper :: "real option"

text \<open>The angle of sample \<open>i\<close>: \<^verbatim>\<open>(i / 180) * 2 * Math.PI\<close>.\<close>

definition theta_of :: "nat \<Rightarrow> real" where
  "theta_of i = (real i / 180) * 2 * pi"

text \<open>
  The body of the \<^verbatim>\<open>for\<close> loop at one angle: the parametric ellipse point, the rotation
  by the argument of periastron about Z and the inclination about X.
\<close>

definition ellipse_xy :: "jsnum \<Rightarrow> jsnum \<Rightarrow> real \<Rightarrow> jsnum \<times> jsnum" where
  "ellipse_xy a b theta = (js_times a (Num (cos theta)), js_times b (Num (sin theta)))"

definition orbit_point :: "jsnum \<Rightarrow> jsnum \<Rightarrow> real \<Rightarrow> real \<Rightarrow> real \<Rightarrow> jsnum Vector3" where
  "orbit_point a b inclination argPeriastron theta =
     (let x = fst (ellipse_xy a b theta);
          y = snd (ellipse_xy a b theta);
          px = js_minus (js_times x (Num (cos argPeriastron))) (js_times y (Num (sin argPeriastron)));
          py = js_plus (js_times x (Num (sin argPeriastron))) (js_times y (Num (cos argPeriastron)));
          pz = Num 0;
          inc_py = js_minus (js_times py (Num (cos inclination))) (js_times pz (Num (sin inclination)));
          inc_pz = js_plus (js_times py (Num (sin inclination))) (js_times pz (Num (cos inclination)))
      in Vector3 px inc_py inc_pz)"

text \<open>\<^verbatim>\<open>for (let i = 0; i <= 180; i++) { ...; points.push(...) }\<close>\<close>

function points_loop :: "jsnum \<Rightarrow> jsnum \<Rightarrow> real \<Rightarrow> real \<Rightarrow> nat \<Rightarrow> jsnum Vector3 list \<Rightarrow> jsnum Vector3 list" where
  "points_loop a b inclination argPeriastron i points =
     (if i \<le> 180
      then points_loop a b inclination argPeriastron (i + 1)
             (points @ [orbit_point a b inclination argPeriastron (theta_of i)])
      else points)"
  by pat_completeness auto
termination
  by (relation "measure (\<lambda>(a, b, inc, argp, i, points). 181 - i)") auto

declare points_loop.simps [simp del]

text \<open>The scene of the component: each orbit is one line with its points and colour.\<close>

datatype scene_object =
    Line (line_points: "jsnum Vector3 list") (line_colour: nat)
  | StarMesh real
  | AmbientLight

definition scaled_axis :: "real \<Rightarrow> real \<Rightarrow> jsnum" where
  "scaled_axis orbsmax starRadius = js_plus (js_times (Num orbsmax) (Num 3)) (Num starRadius)"

definition clamped_ecc :: "real option \<Rightarrow> real" where
  "clamped_ecc e = min (or_default e 0) 0.95"

definition semi_minor :: "jsnum \<Rightarrow> real \<Rightarrow> jsnum" where
  "semi_minor a ecc = js_times a (Math_sqrt (js_minus (Num 1) (js_times (Num ecc) (Num ecc))))"

definition deg_to_rad :: "real option \<Rightarrow> real" where
  "deg_to_rad d = or_default d 0 * (pi / 180)"

definition orbit_colour :: "nat \<Rightarrow> nat" where
  "orbit_colour index = 0x44bbff + (index * 9999) mod 0xffffff"

text \<open>The callback of \<^verbatim>\<open>orbits.forEach((orbit, index) => ...)\<close>, on the scene so far.\<close>

definition draw_orbit :: "real \<Rightarrow> OrbitData \<Rightarrow> nat \<Rightarrow> scene_object list \<Rightarrow> scene_object list" where
  "draw_orbit starRadius orbit index scene =
     (case pl_orbsmax orbit of
        None \<Rightarrow> scene
      | Some orbsmax \<Rightarrow>
          if orbsmax = 0 then scene
          else if orbsmax \<le> 0 then scene
          else
            (let a = scaled_axis orbsmax starRadius;
                 ecc = clamped_ecc (pl_orbeccen orbit);
                 b = semi_minor a ecc;
                 inclination = deg_to_rad (pl_orbincl orbit);
                 argPeriastron = deg_to_rad (pl_orblper orbit);
                 points = points_loop a b inclination argPeriastron 0 []
             in scene @ [Line points (orbit_colour index)]))"

fun orbits_forEach :: "real \<Rightarrow> OrbitData list \<Rightarrow> nat \<Rightarrow> scene_object list \<Rightarrow> scene_object list" where
  "orbits_forEach starRadius [] index scene = scene"
| "orbits_forEach starRadius (orbit # rest) index scene =
     orbits_forEach starRadius rest (index + 1) (draw_orbit starRadius orbit index scene)"

definition OrbitalPaths_scene :: "OrbitData list \<Rightarrow> real \<Rightarrow> scene_object list" where
  "OrbitalPaths_scene orbits starRadius =
     orbits_forEach starRadius orbits 0 [] @ [StarMesh starRadius, AmbientLight]"


text \<open>The indices the loop visits, \<open>0, 1, ..., 180\<close>.\<close>

definition sample_indices :: "nat list" where
  "sample_indices = [0..<181]"

text \<open>
  The focus-based formula in the words of the specification
  (\<^verbatim>\<open>r = a(1-e^2)/(1+e cos theta), x = r cos theta, y = r sin theta\<close>), to compare the
  loop against.
\<close>

definition spec_ellipsePoint :: "real \<Rightarrow> real \<Rightarrow> real \<Rightarrow> real \<times> real" where
  "spec_ellipsePoint a e theta =
     (let r = a * (1 - e\<^sup>2) / (1 + e * cos theta) in (r * cos theta, r * sin theta))"

section \<open>StarRenderer.tsx: the planets of a system\<close>

text \<open>
  The fields of a planet record that the loop reads. The record type itself and
  \<^verbatim>\<open>generate3DOrbit\<close>, \<^verbatim>\<open>getPeriapsisPosition\<close> are declared in \<^verbatim>\<open>lib/\<close>, which is not
  among the sources: the two functions are parameters of the loop, and
  \<open>OrbitalElements\<close> is the object literal the loop passes to them
  (\<^verbatim>\<open>pl_orbsmax\<close>, \<^verbatim>\<open>pl_orbeccen\<close>, \<^verbatim>\<open>pl_orbincl\<close>, \<^verbatim>\<open>pl_orblper\<close>).
\<close>

record PlanetRecord =
  pl_name :: string
  pl_orbsmax :: "real option"
  pl_orbeccen :: "real option"
  pl_orbincl :: "real option"
  pl_orblper :: "real option"
  pl_rade :: "real option"

datatype OrbitalElements = OrbitalElements real real "real option" "real option"

definition EARTH_RADIUS_AU :: real where
  "EARTH_RADIUS_AU = 0.0000426"

definition AU_TO_SCENE_UNITS :: real where
  "AU_TO_SCENE_UNITS = 100"

definition SYSTEM_SCALE :: real where
  "SYSTEM_SCALE = 0.5"

definition MIN_PLANET_SIZE :: real where
  "MIN_PLANET_SIZE = 0.5"

text \<open>\<^verbatim>\<open>new THREE.Vector3(p.x * A * S, p.z * A * S, p.y * A * S)\<close>\<close>

definition to_scene :: "real Vector3 \<Rightarrow> real Vector3" where
  "to_scene p = Vector3 (vx p * AU_TO_SCENE_UNITS * SYSTEM_SCALE)
                        (vz p * AU_TO_SCENE_UNITS * SYSTEM_SCALE)
                        (vy p * AU_TO_SCENE_UNITS * SYSTEM_SCALE)"

definition planetRadius_scene :: "real option \<Rightarrow> real" where
  "planetRadius_scene rade =
     (let planetRadius_earthRadii = or_default rade 1;
          planetRadius_AU = planetRadius_earthRadii * EARTH_RADIUS_AU;
          radius = planetRadius_AU * AU_TO_SCENE_UNITS * SYSTEM_SCALE
      in if radius < MIN_PLANET_SIZE then MIN_PLANET_SIZE else radius)"

text \<open>\<^verbatim>\<open>planet.pl_name || 'Planet'\<close>\<close>

definition planet_label :: "string \<Rightarrow> string" where
  "planet_label n = (if n = [] then ''Planet'' else n)"

record planet_mesh =
  mesh_name :: string
  mesh_radius :: real
  mesh_position :: "real Vector3"
  mesh_colour :: nat

datatype star_object =
    OrbitLine "real Vector3 list"
  | PlanetMesh planet_mesh

record star_view =
  star_scene :: "star_object list"
  planetMeshes :: "planet_mesh list"

text \<open>The callback of \<^verbatim>\<open>planets.forEach((planet, idx) => ...)\<close>, on the view so far.\<close>

definition render_planet ::
  "(OrbitalElements \<Rightarrow> real Vector3 list) \<Rightarrow> (OrbitalElements \<Rightarrow> real Vector3) \<Rightarrow>
   PlanetRecord \<Rightarrow> nat \<Rightarrow> star_view \<Rightarrow> star_view" where
  "render_planet generate3DOrbit getPeriapsisPosition planet idx view =
     (case PlanetRecord.pl_orbsmax planet of
        None \<Rightarrow> view
      | Some orbsmax \<Rightarrow>
          if orbsmax = 0 then view
          else if orbsmax \<le> 0 then view
          else
            (let elements = OrbitalElements orbsmax (or_default (PlanetRecord.pl_orbeccen planet) 0)
                              (PlanetRecord.pl_orbincl planet) (PlanetRecord.pl_orblper planet);
                 orbit3D = generate3DOrbit elements;
                 orbitPoints = map to_scene orbit3D;
                 periapsisPos = getPeriapsisPosition elements;
                 planetMesh = \<lparr>mesh_name = planet_label (pl_name planet),
                               mesh_radius = planetRadius_scene (pl_rade planet),
                               mesh_position = to_scene periapsisPos,
                               mesh_colour = idx mod 5\<rparr>
             in \<lparr>star_scene = star_scene view @ [OrbitLine orbitPoints, PlanetMesh planetMesh],
                 planetMeshes = planetMeshes view @ [planetMesh]\<rparr>))"

fun planets_forEach ::
  "(OrbitalElements \<Rightarrow> real Vector3 list) \<Rightarrow> (OrbitalElements \<Rightarrow> real Vector3) \<Rightarrow>
   PlanetRecord list \<Rightarrow> nat \<Rightarrow> star_view \<Rightarrow> star_view" where
  "planets_forEach gen peri [] idx view = view"
| "planets_forEach gen peri (planet # rest) idx view =
     planets_forEach gen peri rest (idx + 1) (render_planet gen peri planet idx view)"

section \<open>SolarSystemRenderer.tsx: planets and their hitboxes\<close>

definition realRadii :: "(string \<times> real) list" where
  "realRadii = [(''Sun'', 696000), (''Mercury'', 2440), (''Venus'', 6052), (''Earth'', 6371),
                (''Mars'', 3390), (''Jupiter'', 69911), (''Saturn'', 58232), (''Uranus'', 25362),
                (''Neptune'', 24622)]"

definition realOrbitalDistances :: "(string \<times> real) list" where
  "realOrbitalDistances = [(''Mercury'', 0.39), (''Venus'', 0.72), (''Earth'', 1.0), (''Mars'', 1.52),
                           (''Jupiter'', 5.2), (''Saturn'', 9.54), (''Uranus'', 19.19),
                           (''Neptune'', 30.07)]"

definition SUN_DISPLAY_RADIUS :: real where
  "SUN_DISPLAY_RADIUS = 10"

definition AU_SCALE :: real where
  "AU_SCALE = 40"

definition sunRealRadius :: real where
  "sunRealRadius = or_default (map_of realRadii ''Sun'') 0"

record SolarSystemBody =
  name :: string
  orbitalRadius :: real
  orbitalPeriod :: real

definition displayRadius :: "string \<Rightarrow> real" where
  "displayRadius n =
     (let planetRealRadius = or_default (map_of realRadii n) 6371;
          radiusRatio = planetRealRadius / sunRealRadius
      in max 0.15 (radiusRatio * SUN_DISPLAY_RADIUS))"

definition hitboxRadius :: "real \<Rightarrow> real" where
  "hitboxRadius r = max (r * 3) 2.5"

record solar_planet =
  planet_name :: string
  planet_radius :: real
  planet_orbitalRadius :: real
  planet_geometry_radius :: real
  planet_position :: "real Vector3"

text \<open>
  The hitbox is a child of its planet at the local origin, so its centre in the world is
  the planet's position (\<^verbatim>\<open>parentPlanet.getWorldPosition\<close>).
\<close>

record hitbox =
  hitbox_name :: string
  hitbox_radius :: real
  hitbox_orbitalRadius :: real
  hitbox_geometry_radius :: real
  hitbox_world_position :: "real Vector3"

definition create_planet :: "SolarSystemBody \<Rightarrow> solar_planet \<times> hitbox" where
  "create_planet pData =
     (let r = displayRadius (name pData);
          orbitalRadius_scene = or_default (map_of realOrbitalDistances (name pData)) (orbitalRadius pData) * AU_SCALE;
          planet = \<lparr>planet_name = name pData, planet_radius = r,
                    planet_orbitalRadius = orbitalRadius_scene, planet_geometry_radius = r,
                    planet_position = Vector3 orbitalRadius_scene 0 0\<rparr>;
          hitbox = \<lparr>hitbox_name = name pData, hitbox_radius = r,
                    hitbox_orbitalRadius = orbitalRadius_scene,
                    hitbox_geometry_radius = hitboxRadius r,
                    hitbox_world_position = planet_position planet\<rparr>
      in (planet, hitbox))"

section \<open>The progress counter of a camera animation\<close>

text \<open>
  \<^verbatim>\<open>progress\<close> starts at 0 and grows by a constant every tick; the test against 1 decides
  when the animation ends, so its rounding matters and it is modelled as the IEEE-754
  binary64 number it is. Every binary64 value in \<open>[2^-6, 2)\<close> is a multiple of \<open>2^-58\<close>;
  a \<open>double\<close> is that multiple. \<open>round53\<close> rounds a multiple of \<open>2^-58\<close> to the nearest
  number with a 53-bit significand, ties to even, which is the binary64 sum of two such
  numbers. Camera coordinates stay reals.
\<close>

type_synonym double = nat

definition to_real :: "double \<Rightarrow> real" where
  "to_real d = real d / 2 ^ 58"

fun bit_length :: "nat \<Rightarrow> nat" where
  "bit_length n = (if n = 0 then 0 else Suc (bit_length (n div 2)))"

declare bit_length.simps [simp del]

definition round53 :: "nat \<Rightarrow> nat" where
  "round53 n =
     (if bit_length n \<le> 53 then n
      else
        (let unit = 2 ^ (bit_length n - 53);
             q = n div unit;
             r = n mod unit;
             half = unit div 2
         in if half < r then (q + 1) * unit
            else if r = half \<and> odd q then (q + 1) * unit
            else q * unit))"

definition double_add :: "double \<Rightarrow> double \<Rightarrow> double" where
  "double_add p q = round53 (p + q)"

text \<open>The literals \<^verbatim>\<open>0.04\<close> and \<^verbatim>\<open>0.02\<close>, and \<^verbatim>\<open>1 / transitionDuration\<close> with
  \<^verbatim>\<open>transitionDuration = 60\<close>, as binary64 numbers.\<close>

definition d_0_04 :: double where
  "d_0_04 = 11529215046068470"

definition d_0_02 :: double where
  "d_0_02 = 5764607523034235"

definition d_1_60 :: double where
  "d_1_60 = 4803839602528529"

text \<open>The counter after \<open>n\<close> ticks.\<close>

fun ticks :: "double \<Rightarrow> nat \<Rightarrow> double \<Rightarrow> double" where
  "ticks step 0 p = p"
| "ticks step (Suc n) p = ticks step n (double_add p step)"

section \<open>Cameras, animation frames and the state of a renderer\<close>

text \<open>\<^verbatim>\<open>Vector3.lerpVectors(v1, v2, alpha)\<close> of three.js: \<^verbatim>\<open>v1 + (v2 - v1) * alpha\<close> by component.\<close>

definition lerpVectors :: "real Vector3 \<Rightarrow> real Vector3 \<Rightarrow> real \<Rightarrow> real Vector3" where
  "lerpVectors v1 v2 alpha =
     Vector3 (vx v1 + (vx v2 - vx v1) * alpha)
             (vy v1 + (vy v2 - vy v1) * alpha)
             (vz v1 + (vz v2 - vz v1) * alpha)"

text \<open>The variables an animation callback closes over.\<close>

record closure =
  startPos :: "real Vector3"
  startTarget :: "real Vector3"
  newCameraPos :: "real Vector3"
  endTarget :: "real Vector3"
  progress :: double

record ExoplanetSystem =
  hostname :: string

text \<open>The callbacks handed to \<^verbatim>\<open>requestAnimationFrame\<close>, each with its closure.\<close>

datatype animation =
    SolarFocus closure
  | SolarTransition closure ExoplanetSystem
  | SolarBack closure
  | StarFocus closure

datatype log_entry =
    ClickDetected
  | FocusingOnPlanet string
  | PlanetHitboxClicked string
  | PlanetMeshClicked string
  | ExoplanetSystemClicked
  | TransitionComplete
  | AnimationComplete
  | NoObjectClicked
  | ReturningToSolarSystem
  | NavigatorSystemClicked string
  | UncaughtTypeError

datatype cursor_style = Pointer | Default

datatype view_mode = Solar | Exoplanet

text \<open>
  The camera and controls of a renderer, the browser's queue of requested animation
  frames (handle and callback; the render loop's own frame, which never touches the
  camera, is left out), the component's React state and refs, the console, and the
  navigator's state that \<^verbatim>\<open>onSystemClick\<close> writes. \<^verbatim>\<open>controls.update()\<close> belongs to
  three.js and is taken to leave position and target as they are.
\<close>

record renderer =
  camera_position :: "real Vector3"
  controls_target :: "real Vector3"
  frame_queue :: "(nat \<times> animation) list"
  next_handle :: nat
  animationFrameRef :: "nat option"
  focusedPlanet :: "string option"
  isTransitioning :: bool
  hoveredSystem :: "ExoplanetSystem option"
  hoveredOrbit :: "string option"
  mousePos :: "real \<times> real"
  cursor :: cursor_style
  console :: "log_entry list"
  currentView :: view_mode
  selectedSystem :: "ExoplanetSystem option"

definition requestAnimationFrame :: "animation \<Rightarrow> renderer \<Rightarrow> nat \<times> renderer" where
  "requestAnimationFrame callback s =
     (next_handle s,
      s\<lparr>frame_queue := frame_queue s @ [(next_handle s, callback)],
        next_handle := next_handle s + 1\<rparr>)"

definition cancelAnimationFrame :: "nat \<Rightarrow> renderer \<Rightarrow> renderer" where
  "cancelAnimationFrame h s = s\<lparr>frame_queue := filter (\<lambda>e. fst e \<noteq> h) (frame_queue s)\<rparr>"

text \<open>\<^verbatim>\<open>if (animationFrameRef.current !== null) cancelAnimationFrame(animationFrameRef.current)\<close>\<close>

definition cancel_existing :: "renderer \<Rightarrow> renderer" where
  "cancel_existing s =
     (case animationFrameRef s of None \<Rightarrow> s | Some h \<Rightarrow> cancelAnimationFrame h s)"

subsection \<open>SystemNavigator.tsx\<close>

definition handleSystemClick :: "ExoplanetSystem \<Rightarrow> renderer \<Rightarrow> renderer" where
  "handleSystemClick system s =
     s\<lparr>console := console s @ [NavigatorSystemClicked (hostname system)],
       selectedSystem := Some system,
       currentView := Exoplanet\<rparr>"

subsection \<open>SolarSystemRenderer.tsx: focusPlanet, the marker transition, back\<close>

definition animateCamera :: "closure \<Rightarrow> renderer \<Rightarrow> renderer" where
  "animateCamera c s =
     (let c' = c\<lparr>progress := double_add (progress c) d_0_04\<rparr> in
      if to_real (progress c') < 1 then
        (let s1 = s\<lparr>camera_position := lerpVectors (startPos c) (newCameraPos c) (to_real (progress c')),
                     controls_target := lerpVectors (startTarget c) (endTarget c) (to_real (progress c'))\<rparr>;
             r = requestAnimationFrame (SolarFocus c') s1
         in (snd r)\<lparr>animationFrameRef := Some (fst r)\<rparr>)
      else
        s\<lparr>camera_position := newCameraPos c,
          controls_target := endTarget c,
          isTransitioning := False,
          animationFrameRef := None,
          console := console s @ [AnimationComplete]\<rparr>)"

definition focusPlanet :: "string \<Rightarrow> real Vector3 \<Rightarrow> real \<Rightarrow> renderer \<Rightarrow> renderer" where
  "focusPlanet planetName planetPosition planetRadius s =
     (let s1 = s\<lparr>console := console s @ [FocusingOnPlanet planetName],
                  focusedPlanet := Some planetName,
                  isTransitioning := True\<rparr>;
          distance = max (planetRadius * 8) 5;
          c = \<lparr>startPos = camera_position s1,
               startTarget = controls_target s1,
               newCameraPos = Vector3 (vx planetPosition + distance)
                                      (vy planetPosition + distance * 0.5)
                                      (vz planetPosition + distance),
               endTarget = planetPosition,
               progress = 0\<rparr>
      in animateCamera c (cancel_existing s1))"

definition animateTransition :: "closure \<Rightarrow> ExoplanetSystem \<Rightarrow> renderer \<Rightarrow> renderer" where
  "animateTransition c targetSystem s =
     (let c' = c\<lparr>progress := double_add (progress c) d_1_60\<rparr> in
      if to_real (progress c') < 1 then
        (let s1 = s\<lparr>camera_position := lerpVectors (startPos c) (newCameraPos c) (to_real (progress c')),
                     controls_target := lerpVectors (startTarget c) (endTarget c) (to_real (progress c'))\<rparr>;
             r = requestAnimationFrame (SolarTransition c' targetSystem) s1
         in (snd r)\<lparr>animationFrameRef := Some (fst r)\<rparr>)
      else
        handleSystemClick targetSystem
          (s\<lparr>console := console s @ [TransitionComplete], animationFrameRef := None\<rparr>))"

definition initialCameraPos :: "real Vector3" where
  "initialCameraPos = Vector3 0 200 400"

definition animateBack :: "closure \<Rightarrow> renderer \<Rightarrow> renderer" where
  "animateBack c s =
     (let c' = c\<lparr>progress := double_add (progress c) d_0_04\<rparr> in
      if to_real (progress c') < 1 then
        (let s1 = s\<lparr>camera_position := lerpVectors (startPos c) (newCameraPos c) (to_real (progress c')),
                     controls_target := lerpVectors (startTarget c) (endTarget c) (to_real (progress c'))\<rparr>;
             r = requestAnimationFrame (SolarBack c') s1
         in (snd r)\<lparr>animationFrameRef := Some (fst r)\<rparr>)
      else
        s\<lparr>camera_position := newCameraPos c,
          controls_target := endTarget c,
          isTransitioning := False,
          animationFrameRef := None\<rparr>)"

definition handleBackToSystem :: "renderer \<Rightarrow> renderer" where
  "handleBackToSystem s =
     (let s1 = cancel_existing
                 (s\<lparr>console := console s @ [ReturningToSolarSystem],
                    focusedPlanet := None,
                    isTransitioning := True\<rparr>);
          c = \<lparr>startPos = camera_position s1,
               startTarget = controls_target s1,
               newCameraPos = initialCameraPos,
               endTarget = Vector3 0 0 0,
               progress = 0\<rparr>
      in animateBack c s1)"

subsection \<open>StarRenderer.tsx: the click animation\<close>

definition star_animateCamera :: "closure \<Rightarrow> renderer \<Rightarrow> renderer" where
  "star_animateCamera c s =
     (let c' = c\<lparr>progress := double_add (progress c) d_0_02\<rparr> in
      if to_real (progress c') \<le> 1 then
        snd (requestAnimationFrame (StarFocus c')
               (s\<lparr>camera_position := lerpVectors (startPos c) (newCameraPos c) (to_real (progress c')),
                  controls_target := lerpVectors (startTarget c) (endTarget c) (to_real (progress c'))\<rparr>))
      else s)"

subsection \<open>One display frame\<close>

fun run_animation :: "animation \<Rightarrow> renderer \<Rightarrow> renderer" where
  "run_animation (SolarFocus c) s = animateCamera c s"
| "run_animation (SolarTransition c targetSystem) s = animateTransition c targetSystem s"
| "run_animation (SolarBack c) s = animateBack c s"
| "run_animation (StarFocus c) s = star_animateCamera c s"

text \<open>
  The browser takes the callbacks requested so far, empties the queue and runs them in
  the order of their requests; what they request runs in the next frame.
\<close>

definition animation_frame :: "renderer \<Rightarrow> renderer" where
  "animation_frame s =
     foldl (\<lambda>s' e. run_animation (snd e) s') (s\<lparr>frame_queue := []\<rparr>) (frame_queue s)"

section \<open>Picking\<close>

text \<open>
  \<^verbatim>\<open>raycaster.intersectObjects(objects)\<close> of three.js returns the intersections of the ray
  with the objects, nearest first. The ray (set from the camera and the pointer) is
  given by the distances at which it meets each object; no distance means no hit.
\<close>

definition intersectObjects :: "('o \<Rightarrow> real list) \<Rightarrow> 'o list \<Rightarrow> (real \<times> 'o) list" where
  "intersectObjects ray objects =
     sort_key fst (concat (map (\<lambda>ob. map (\<lambda>d. (d, ob)) (ray ob)) objects))"

record orbit_line =
  planetName :: string

record marker =
  systemIndex :: nat
  marker_position :: "real Vector3"

record solar_scene =
  invisibleHitboxes :: "hitbox list"
  solar_planetMeshes :: "solar_planet list"
  orbitLines :: "orbit_line list"
  systemMarkers :: "marker list"
  systemData :: "ExoplanetSystem list"

record ray_query =
  meets_hitbox :: "hitbox \<Rightarrow> real list"
  meets_planet :: "solar_planet \<Rightarrow> real list"
  meets_orbit :: "orbit_line \<Rightarrow> real list"
  meets_marker :: "marker \<Rightarrow> real list"

subsection \<open>SolarSystemRenderer.tsx: onMouseMove and onClick\<close>

definition solar_onMouseMove :: "real \<times> real \<Rightarrow> ray_query \<Rightarrow> solar_scene \<Rightarrow> renderer \<Rightarrow> renderer" where
  "solar_onMouseMove client ray sc s0 =
     (let s = s0\<lparr>mousePos := client\<rparr> in
      case intersectObjects (meets_hitbox ray) (invisibleHitboxes sc) of
        hit # others \<Rightarrow> s\<lparr>cursor := Pointer\<rparr>
      | [] \<Rightarrow>
          (case intersectObjects (meets_orbit ray) (orbitLines sc) of
             hit # others \<Rightarrow> s\<lparr>hoveredOrbit := Some (planetName (snd hit)), cursor := Pointer\<rparr>
           | [] \<Rightarrow>
               (let s1 = s\<lparr>hoveredOrbit := None\<rparr> in
                case intersectObjects (meets_marker ray) (systemMarkers sc) of
                  hit # others \<Rightarrow>
                    if systemIndex (snd hit) < length (systemData sc)
                    then s1\<lparr>hoveredSystem := Some (systemData sc ! systemIndex (snd hit)),
                            cursor := Pointer\<rparr>
                    else s1\<lparr>hoveredSystem := None, cursor := Default\<rparr>
                | [] \<Rightarrow> s1\<lparr>hoveredSystem := None, cursor := Default\<rparr>)))"

text \<open>
  The marker branch of \<^verbatim>\<open>onClick\<close>. \<^verbatim>\<open>systemMarkers[index].position\<close> throws when the
  marker list is shorter than the data list; the handler then ends where it is.
\<close>

definition start_transition :: "solar_scene \<Rightarrow> nat \<Rightarrow> renderer \<Rightarrow> renderer" where
  "start_transition sc index s =
     (if index < length (systemMarkers sc) then
        (let targetSystem = systemData sc ! index;
             markerPos = marker_position (systemMarkers sc ! index);
             s1 = cancel_existing (s\<lparr>isTransitioning := True\<rparr>);
             zoomDistance = 50;
             c = \<lparr>startPos = camera_position s1,
                  startTarget = controls_target s1,
                  newCameraPos = Vector3 (vx markerPos + zoomDistance)
                                         (vy markerPos + zoomDistance * 0.5)
                                         (vz markerPos + zoomDistance),
                  endTarget = markerPos,
                  progress = 0\<rparr>
         in animateTransition c targetSystem s1)
      else s\<lparr>console := console s @ [UncaughtTypeError]\<rparr>)"

definition solar_onClick :: "ray_query \<Rightarrow> solar_scene \<Rightarrow> renderer \<Rightarrow> renderer" where
  "solar_onClick ray sc s0 =
     (let s = s0\<lparr>console := console s0 @ [ClickDetected]\<rparr> in
      case intersectObjects (meets_hitbox ray) (invisibleHitboxes sc) of
        hit # others \<Rightarrow>
          focusPlanet (hitbox_name (snd hit)) (hitbox_world_position (snd hit)) (hitbox_radius (snd hit))
            (s\<lparr>console := console s @ [PlanetHitboxClicked (hitbox_name (snd hit))]\<rparr>)
      | [] \<Rightarrow>
          (case intersectObjects (meets_planet ray) (solar_planetMeshes sc) of
             hit # others \<Rightarrow>
               focusPlanet (planet_name (snd hit)) (planet_position (snd hit)) (planet_radius (snd hit))
                 (s\<lparr>console := console s @ [PlanetMeshClicked (planet_name (snd hit))]\<rparr>)
           | [] \<Rightarrow>
               (case intersectObjects (meets_marker ray) (systemMarkers sc) of
                  hit # others \<Rightarrow>
                    (let s1 = s\<lparr>console := console s @ [ExoplanetSystemClicked]\<rparr> in
                     if systemIndex (snd hit) < length (systemData sc)
                     then start_transition sc (systemIndex (snd hit)) s1
                     else s1\<lparr>console := console s1 @ [NoObjectClicked]\<rparr>)
                | [] \<Rightarrow> s\<lparr>console := console s @ [NoObjectClicked]\<rparr>)))"

subsection \<open>StarRenderer.tsx: onClick\<close>

definition star_onClick :: "(planet_mesh \<Rightarrow> real list) \<Rightarrow> planet_mesh list \<Rightarrow> renderer \<Rightarrow> renderer" where
  "star_onClick ray planetObjects s =
     (case intersectObjects ray planetObjects of
        hit # others \<Rightarrow>
          (let s1 = s\<lparr>focusedPlanet := Some (mesh_name (snd hit))\<rparr>;
               targetPos = mesh_position (snd hit);
               distance = 50;
               c = \<lparr>startPos = camera_position s1,
                    startTarget = controls_target s1,
                    newCameraPos = Vector3 (vx targetPos + distance)
                                           (vy targetPos + distance * 0.5)
                                           (vz targetPos + distance),
                    endTarget = targetPos,
                    progress = 0\<rparr>
           in star_animateCamera c s1)
      | [] \<Rightarrow> s)"

section \<open>Auxiliary notions for the statements\<close>

text \<open>
  The guard of both loops, \<^verbatim>\<open>if (!x.pl_orbsmax || x.pl_orbsmax <= 0) return\<close>, lets a record
  through exactly when its semi-major axis is present and positive.
\<close>

definition has_axis :: "real option \<Rightarrow> bool" where
  "has_axis v = (case v of None \<Rightarrow> False | Some r \<Rightarrow> 0 < r)"










text \<open>The values the counter takes in its first \<open>n\<close> ticks, one after the other.\<close>

fun tick_list :: "double \<Rightarrow> nat \<Rightarrow> double \<Rightarrow> double list" where
  "tick_list step 0 p = []"
| "tick_list step (Suc n) p = double_add p step # tick_list step n (double_add p step)"

text \<open>
  A renderer in which an animation with closure \<open>c\<close> has just ticked to progress \<open>p\<close>,
  moved the camera there and requested its next frame: for the animations of
  SolarSystemRenderer, which record the request in \<^verbatim>\<open>animationFrameRef\<close>, and for the one
  of StarRenderer, which does not.
\<close>

definition in_flight :: "(closure \<Rightarrow> animation) \<Rightarrow> closure \<Rightarrow> double \<Rightarrow> renderer \<Rightarrow> renderer" where
  "in_flight callback c p s =
     s\<lparr>camera_position := lerpVectors (startPos c) (newCameraPos c) (to_real p),
       controls_target := lerpVectors (startTarget c) (endTarget c) (to_real p),
       frame_queue := [(next_handle s, callback (c\<lparr>progress := p\<rparr>))],
       next_handle := next_handle s + 1,
       animationFrameRef := Some (next_handle s)\<rparr>"

definition star_in_flight :: "closure \<Rightarrow> double \<Rightarrow> renderer \<Rightarrow> renderer" where
  "star_in_flight c p s =
     s\<lparr>camera_position := lerpVectors (startPos c) (newCameraPos c) (to_real p),
       controls_target := lerpVectors (startTarget c) (endTarget c) (to_real p),
       frame_queue := [(next_handle s, StarFocus (c\<lparr>progress := p\<rparr>))],
       next_handle := next_handle s + 1\<rparr>"

fun closure_of :: "animation \<Rightarrow> closure" where
  "closure_of (SolarFocus c) = c"
| "closure_of (SolarTransition c targetSystem) = c"
| "closure_of (SolarBack c) = c"
| "closure_of (StarFocus c) = c"

text \<open>
  The queue discipline of SolarSystemRenderer: the frame that \<^verbatim>\<open>animationFrameRef\<close> names is
  the only camera animation requested, and without one none is requested.
\<close>

fun solar_animation :: "animation \<Rightarrow> bool" where
  "solar_animation (SolarFocus c) = True"
| "solar_animation (SolarTransition c targetSystem) = True"
| "solar_animation (SolarBack c) = True"
| "solar_animation (StarFocus c) = False"

definition solar_inv :: "renderer \<Rightarrow> bool" where
  "solar_inv s =
     (case animationFrameRef s of
        None \<Rightarrow> frame_queue s = []
      | Some h \<Rightarrow> map fst (frame_queue s) = [h] \<and> list_all (\<lambda>e. solar_animation (snd e)) (frame_queue s))"



definition star_initial :: renderer where
  "star_initial =
     \<lparr>camera_position = Vector3 0 99 330,
      controls_target = Vector3 0 0 0,
      frame_queue = [],
      next_handle = 1,
      animationFrameRef = None,
      focusedPlanet = Some ''b'',
      isTransitioning = False,
      hoveredSystem = None,
      hoveredOrbit = None,
      mousePos = (0, 0),
      cursor = Default,
      console = [],
      currentView = Exoplanet,
      selectedSystem = Some \<lparr>hostname = ''Kepler-22''\<rparr>\<rparr>"

definition planet_b :: planet_mesh where
  "planet_b = \<lparr>mesh_name = ''b'', mesh_radius = 0.5, mesh_position = Vector3 50 0 0, mesh_colour = 0\<rparr>"

definition ray_b :: "planet_mesh \<Rightarrow> real list" where
  "ray_b m = (if m = planet_b then [280, 281] else [])"

section \<open>Properties of the orbit point loop (OrbitalPaths.tsx)\<close>

subsection \<open>Arithmetic on numbers in range\<close>

lemma MAX_VALUE_threshold: "MAX_VALUE < overflow_threshold"
  by (simp add: MAX_VALUE_def overflow_threshold_def)

lemma MAX_VALUE_large: "1000 \<le> MAX_VALUE"
  by (simp add: MAX_VALUE_def)

lemma js_result_Num: "\<bar>r\<bar> \<le> MAX_VALUE \<Longrightarrow> js_result r = Num r"
  using MAX_VALUE_threshold by (auto simp: js_result_def Num_def)

lemma js_times_Num: "\<bar>p * q\<bar> \<le> MAX_VALUE \<Longrightarrow> js_times (Num p) (Num q) = Num (p * q)"
  using js_result_Num[of "p * q"] by (simp add: Num_def)

lemma js_plus_Num: "\<bar>p + q\<bar> \<le> MAX_VALUE \<Longrightarrow> js_plus (Num p) (Num q) = Num (p + q)"
  using js_result_Num[of "p + q"] by (simp add: Num_def)

lemma js_minus_Num: "\<bar>p - q\<bar> \<le> MAX_VALUE \<Longrightarrow> js_minus (Num p) (Num q) = Num (p - q)"
  using js_result_Num[of "p - q"] by (simp add: Num_def js_minus_def)

lemma Math_sqrt_Num: "0 \<le> r \<Longrightarrow> Math_sqrt (Num r) = Num (sqrt r)"
  by (simp add: Num_def)

lemma js_times_NaN: "js_times None v = None" "js_times u None = None"
  by (cases u rule: js_negate.cases; simp)+

lemma js_plus_NaN: "js_plus None v = None" "js_plus u None = None"
  by (cases u rule: js_negate.cases; simp)+

lemma js_minus_NaN: "js_minus None v = None" "js_minus u None = None"
  by (simp_all add: js_minus_def)

lemma abs_times_unit: "\<bar>u\<bar> \<le> m \<Longrightarrow> \<bar>v\<bar> \<le> 1 \<Longrightarrow> \<bar>u * (v::real)\<bar> \<le> m"
proof -
  assume u: "\<bar>u\<bar> \<le> m" and v: "\<bar>v\<bar> \<le> 1"
  have "\<bar>u * v\<bar> = \<bar>u\<bar> * \<bar>v\<bar>" by (rule abs_mult)
  also have "\<dots> \<le> \<bar>u\<bar> * 1" using v by (intro mult_left_mono) simp_all
  finally show ?thesis using u by simp
qed

lemma square_le_1: "- 1 \<le> (ecc::real) \<Longrightarrow> ecc \<le> 1 \<Longrightarrow> ecc * ecc \<le> 1"
  using abs_square_le_1[of ecc] by (simp add: power2_eq_square abs_le_iff)

lemma square_less_1: "- 1 < (ecc::real) \<Longrightarrow> ecc < 1 \<Longrightarrow> ecc * ecc < 1"
  using abs_square_less_1[of ecc] by (simp add: power2_eq_square abs_less_iff)

lemma scaled_axis_Num:
  assumes "0 < orbsmax" "0 \<le> starRadius" "orbsmax * 3 + starRadius \<le> MAX_VALUE"
  shows "scaled_axis orbsmax starRadius = Num (orbsmax * 3 + starRadius)"
proof -
  have "\<bar>orbsmax * 3\<bar> \<le> MAX_VALUE" "\<bar>orbsmax * 3 + starRadius\<bar> \<le> MAX_VALUE"
    using assms by simp_all
  then show ?thesis
    by (simp add: scaled_axis_def js_times_Num js_plus_Num)
qed

lemma semi_minor_Num:
  assumes a: "\<bar>a\<bar> \<le> MAX_VALUE" and ecc: "- 1 \<le> ecc" "ecc \<le> 1"
  shows "semi_minor (Num a) ecc = Num (a * sqrt (1 - ecc * ecc))"
proof -
  have sq: "0 \<le> ecc * ecc" "ecc * ecc \<le> 1"
    using square_le_1[OF ecc] by simp_all
  have one: "1 \<le> MAX_VALUE"
    using MAX_VALUE_large by simp
  have "\<bar>ecc * ecc\<bar> \<le> MAX_VALUE" "\<bar>1 - ecc * ecc\<bar> \<le> MAX_VALUE"
    using sq one by linarith+
  then have m: "js_times (Num ecc) (Num ecc) = Num (ecc * ecc)"
    and d: "js_minus (Num 1) (Num (ecc * ecc)) = Num (1 - ecc * ecc)"
    by (simp_all add: js_times_Num js_minus_Num)
  have r: "Math_sqrt (Num (1 - ecc * ecc)) = Num (sqrt (1 - ecc * ecc))"
    using sq by (intro Math_sqrt_Num) simp
  have "\<bar>sqrt (1 - ecc * ecc)\<bar> \<le> 1"
    using sq by simp
  from abs_times_unit[OF a this]
  have "js_times (Num a) (Num (sqrt (1 - ecc * ecc))) = Num (a * sqrt (1 - ecc * ecc))"
    by (rule js_times_Num)
  then show ?thesis
    by (simp add: semi_minor_def m d r)
qed

lemma semi_minor_NaN:
  "1 < ecc * ecc \<Longrightarrow> semi_minor a ecc = None"
  by (simp add: semi_minor_def Num_def js_result_def js_minus_def js_times_NaN(2))

lemma clamped_ecc_Some: "clamped_ecc (Some e) = min e 0.95"
  by (simp add: clamped_ecc_def or_default_def)

lemma clamped_ecc_le: "clamped_ecc v \<le> 0.95"
  by (simp add: clamped_ecc_def)

lemma ellipse_xy_Num:
  assumes "\<bar>a\<bar> \<le> MAX_VALUE" "\<bar>b\<bar> \<le> MAX_VALUE"
  shows "ellipse_xy (Num a) (Num b) theta = (Num (a * cos theta), Num (b * sin theta))"
  using abs_times_unit[OF assms(1), of "cos theta"] abs_times_unit[OF assms(2), of "sin theta"]
  by (simp add: ellipse_xy_def js_times_Num)

text \<open>
  The point of the loop body in closed form, when twice the semi-major axis is in range
  and the semi-minor axis is not the longer one.
\<close>

lemma orbit_point_Num:
  assumes a: "2 * \<bar>a\<bar> \<le> MAX_VALUE" and b: "\<bar>b\<bar> \<le> \<bar>a\<bar>"
  shows "orbit_point (Num a) (Num b) inc argp theta =
     Vector3 (Num (a * cos theta * cos argp - b * sin theta * sin argp))
             (Num ((a * cos theta * sin argp + b * sin theta * cos argp) * cos inc))
             (Num ((a * cos theta * sin argp + b * sin theta * cos argp) * sin inc))"
proof -
  let ?x = "a * cos theta" and ?y = "b * sin theta"
  let ?px = "?x * cos argp - ?y * sin argp" and ?py = "?x * sin argp + ?y * cos argp"
  have am: "\<bar>a\<bar> \<le> MAX_VALUE" and bm: "\<bar>b\<bar> \<le> MAX_VALUE"
    using a b by simp_all
  have x: "\<bar>?x\<bar> \<le> \<bar>a\<bar>" and y: "\<bar>?y\<bar> \<le> \<bar>a\<bar>"
    using abs_times_unit[of a "\<bar>a\<bar>" "cos theta"] abs_times_unit[OF b, of "sin theta"] by simp_all
  have xc: "\<bar>?x * cos argp\<bar> \<le> \<bar>a\<bar>" and xs: "\<bar>?x * sin argp\<bar> \<le> \<bar>a\<bar>"
    and yc: "\<bar>?y * cos argp\<bar> \<le> \<bar>a\<bar>" and ys: "\<bar>?y * sin argp\<bar> \<le> \<bar>a\<bar>"
    using abs_times_unit[OF x, of "cos argp"] abs_times_unit[OF x, of "sin argp"]
      abs_times_unit[OF y, of "cos argp"] abs_times_unit[OF y, of "sin argp"] by simp_all
  have px: "\<bar>?px\<bar> \<le> MAX_VALUE" and py: "\<bar>?py\<bar> \<le> MAX_VALUE"
    using xc xs yc ys a by linarith+
  have pyc: "\<bar>?py * cos inc\<bar> \<le> MAX_VALUE" and pys: "\<bar>?py * sin inc\<bar> \<le> MAX_VALUE"
    using abs_times_unit[OF py, of "cos inc"] abs_times_unit[OF py, of "sin inc"] by simp_all
  have exy: "ellipse_xy (Num a) (Num b) theta = (Num ?x, Num ?y)"
    using am bm by (rule ellipse_xy_Num)
  have t: "js_times (Num ?x) (Num (cos argp)) = Num (?x * cos argp)"
    "js_times (Num ?x) (Num (sin argp)) = Num (?x * sin argp)"
    "js_times (Num ?y) (Num (cos argp)) = Num (?y * cos argp)"
    "js_times (Num ?y) (Num (sin argp)) = Num (?y * sin argp)"
    using xc xs yc ys am by (simp_all add: js_times_Num)
  have p: "js_minus (Num (?x * cos argp)) (Num (?y * sin argp)) = Num ?px"
    "js_plus (Num (?x * sin argp)) (Num (?y * cos argp)) = Num ?py"
    using px py by (simp_all add: js_minus_Num js_plus_Num)
  have z: "js_times (Num 0) (Num (sin inc)) = Num 0" "js_times (Num 0) (Num (cos inc)) = Num 0"
    using MAX_VALUE_large by (simp_all add: js_times_Num)
  have i: "js_times (Num ?py) (Num (cos inc)) = Num (?py * cos inc)"
    "js_times (Num ?py) (Num (sin inc)) = Num (?py * sin inc)"
    using pyc pys by (simp_all add: js_times_Num)
  have f: "js_minus (Num (?py * cos inc)) (Num 0) = Num (?py * cos inc)"
    "js_plus (Num (?py * sin inc)) (Num 0) = Num (?py * sin inc)"
    using pyc pys by (simp_all add: js_minus_Num js_plus_Num)
  show ?thesis
    by (simp only: orbit_point_def Let_def exy fst_conv snd_conv t p z i f)
qed

lemma orbit_point_NaN:
  "orbit_point a None inc argp theta = Vector3 None None None"
  by (simp add: orbit_point_def ellipse_xy_def js_times_NaN(2) js_minus_NaN)

subsection \<open>The loop\<close>

lemma points_loop_eq:
  "points_loop a b inc argp i acc =
     acc @ map (\<lambda>k. orbit_point a b inc argp (theta_of k)) [i..<181]"
proof (induction a b inc argp i acc rule: points_loop.induct)
  case (1 a b inc argp i acc)
  show ?case
  proof (cases "i \<le> 180")
    case True
    then have "[i..<181] = i # [i + 1..<181]"
      by (simp add: upt_conv_Cons)
    with True "1.IH" show ?thesis
      by (subst points_loop.simps) simp
  next
    case False
    then show ?thesis
      by (subst points_loop.simps) simp
  qed
qed

lemma theta_of_90: "theta_of 90 = pi" by (simp add: theta_of_def)
lemma theta_of_30: "theta_of 30 = pi / 3" by (simp add: theta_of_def)
lemma theta_of_0: "theta_of 0 = 0" by (simp add: theta_of_def)
lemma theta_of_180: "theta_of 180 = 2 * pi" by (simp add: theta_of_def)

lemma theta_of_step: "theta_of k = real k * (2 * pi / 180)"
  by (simp add: theta_of_def)

lemma points_loop_samples:
  "points_loop a b inc argp 0 [] = map (\<lambda>k. orbit_point a b inc argp (theta_of k)) sample_indices"
  unfolding sample_indices_def by (simp only: points_loop_eq append_Nil)

lemma length_samples: "length sample_indices = 181"
  by (simp add: sample_indices_def del: upt_rec_numeral)

lemma nth_samples: "k < 181 \<Longrightarrow> sample_indices ! k = k"
  by (simp add: sample_indices_def del: upt_rec_numeral)

lemma hd_samples: "hd (map f sample_indices) = f 0"
  by (simp add: sample_indices_def upt_conv_Cons del: upt_rec_numeral)

lemma last_samples: "last (map f sample_indices) = f 180"
proof -
  have "[0..<181] = [0..<180] @ [180::nat]"
    using upt_Suc_append[of 0 180] by simp
  then show ?thesis by (simp add: sample_indices_def del: upt_rec_numeral)
qed

lemma draw_orbit_drawn:
  "OrbitData.pl_orbsmax orbit = Some orbsmax \<Longrightarrow> 0 < orbsmax \<Longrightarrow>
   draw_orbit starRadius orbit index scene =
     scene @ [Line (map (\<lambda>k. orbit_point (scaled_axis orbsmax starRadius)
                 (semi_minor (scaled_axis orbsmax starRadius) (clamped_ecc (OrbitData.pl_orbeccen orbit)))
                 (deg_to_rad (OrbitData.pl_orbincl orbit)) (deg_to_rad (OrbitData.pl_orblper orbit)) (theta_of k)) sample_indices)
              (orbit_colour index)]"
  by (simp add: draw_orbit_def points_loop_samples Let_def)

text \<open>
  An orbit whose axis is in range and whose eccentricity as used lies in \<open>[- 1, 1]\<close>: the
  scaled axis, the semi-minor axis and every sample in closed form.
\<close>

lemma draw_orbit_in_range:
  assumes a: "OrbitData.pl_orbsmax orbit = Some orbsmax" "0 < orbsmax" "0 \<le> starRadius"
      "2 * (orbsmax * 3 + starRadius) \<le> MAX_VALUE"
    and ecc: "- 1 \<le> clamped_ecc (OrbitData.pl_orbeccen orbit)"
  shows "scaled_axis orbsmax starRadius = Num (orbsmax * 3 + starRadius)"
    and "semi_minor (Num (orbsmax * 3 + starRadius)) (clamped_ecc (OrbitData.pl_orbeccen orbit)) =
           Num ((orbsmax * 3 + starRadius)
                * sqrt (1 - clamped_ecc (OrbitData.pl_orbeccen orbit) * clamped_ecc (OrbitData.pl_orbeccen orbit)))"
    and "draw_orbit starRadius orbit index scene =
     scene @ [Line (map (\<lambda>k. orbit_point (Num (orbsmax * 3 + starRadius))
                 (Num ((orbsmax * 3 + starRadius)
                   * sqrt (1 - clamped_ecc (OrbitData.pl_orbeccen orbit) * clamped_ecc (OrbitData.pl_orbeccen orbit))))
                 (deg_to_rad (OrbitData.pl_orbincl orbit)) (deg_to_rad (OrbitData.pl_orblper orbit)) (theta_of k)) sample_indices)
              (orbit_colour index)]"
    and "orbit_point (Num (orbsmax * 3 + starRadius))
           (Num ((orbsmax * 3 + starRadius)
                * sqrt (1 - clamped_ecc (OrbitData.pl_orbeccen orbit) * clamped_ecc (OrbitData.pl_orbeccen orbit))))
           inc argp theta =
         Vector3 (Num ((orbsmax * 3 + starRadius) * cos theta * cos argp
                       - (orbsmax * 3 + starRadius)
                         * sqrt (1 - clamped_ecc (OrbitData.pl_orbeccen orbit) * clamped_ecc (OrbitData.pl_orbeccen orbit))
                         * sin theta * sin argp))
                 (Num (((orbsmax * 3 + starRadius) * cos theta * sin argp
                       + (orbsmax * 3 + starRadius)
                         * sqrt (1 - clamped_ecc (OrbitData.pl_orbeccen orbit) * clamped_ecc (OrbitData.pl_orbeccen orbit))
                         * sin theta * cos argp) * cos inc))
                 (Num (((orbsmax * 3 + starRadius) * cos theta * sin argp
                       + (orbsmax * 3 + starRadius)
                         * sqrt (1 - clamped_ecc (OrbitData.pl_orbeccen orbit) * clamped_ecc (OrbitData.pl_orbeccen orbit))
                         * sin theta * cos argp) * sin inc))"
proof -
  let ?a = "orbsmax * 3 + starRadius"
  let ?ecc = "clamped_ecc (OrbitData.pl_orbeccen orbit)"
  let ?b = "?a * sqrt (1 - ?ecc * ?ecc)"
  have apos: "0 < ?a"
    using a by (simp add: add_pos_nonneg)
  have am: "\<bar>?a\<bar> \<le> MAX_VALUE" "2 * \<bar>?a\<bar> \<le> MAX_VALUE"
    using apos a(4) by simp_all
  have e1: "?ecc \<le> 1"
    using clamped_ecc_le[of "OrbitData.pl_orbeccen orbit"] by simp
  show sa: "scaled_axis orbsmax starRadius = Num ?a"
    using a apos by (intro scaled_axis_Num) simp_all
  show sm: "semi_minor (Num ?a) ?ecc = Num ?b"
    using am(1) ecc e1 by (rule semi_minor_Num)
  show "draw_orbit starRadius orbit index scene =
     scene @ [Line (map (\<lambda>k. orbit_point (Num ?a) (Num ?b)
                 (deg_to_rad (OrbitData.pl_orbincl orbit)) (deg_to_rad (OrbitData.pl_orblper orbit)) (theta_of k)) sample_indices)
              (orbit_colour index)]"
    using draw_orbit_drawn[OF a(1,2), of starRadius index scene] by (simp only: sa sm)
  have "0 \<le> ?ecc * ?ecc" "?ecc * ?ecc \<le> 1"
    using square_le_1[OF ecc e1] by simp_all
  then have "\<bar>sqrt (1 - ?ecc * ?ecc)\<bar> \<le> 1"
    by simp
  from abs_times_unit[OF order_refl this]
  have "\<bar>?b\<bar> \<le> \<bar>?a\<bar>" .
  from orbit_point_Num[OF am(2) this]
  show "orbit_point (Num ?a) (Num ?b) inc argp theta =
         Vector3 (Num (?a * cos theta * cos argp - ?b * sin theta * sin argp))
                 (Num ((?a * cos theta * sin argp + ?b * sin theta * cos argp) * cos inc))
                 (Num ((?a * cos theta * sin argp + ?b * sin theta * cos argp) * sin inc))" .
qed


text \<open>
  Beyond the range the curve is not finite: at \<open>pl_orbsmax = 10^308\<close> the scaled axis is
  \<^verbatim>\<open>Infinity\<close> and the first point of the curve has \<^verbatim>\<open>NaN\<close> coordinates.
\<close>

lemma scaled_axis_overflow: "scaled_axis (10 ^ 308) 1 = Some PosInfinity"
proof -
  have big: "overflow_threshold \<le> 10 ^ 308 * 3"
    by (simp add: overflow_threshold_def)
  have "js_times (Num (10 ^ 308)) (Num 3) = js_result (10 ^ 308 * 3)"
    by (simp only: Num_def js_times.simps)
  also have "\<dots> = Some PosInfinity"
    by (simp only: js_result_def big if_True)
  finally show ?thesis
    by (simp only: scaled_axis_def Num_def js_plus.simps)
qed

lemma semi_minor_overflow: "semi_minor (Some PosInfinity) 0 = Some PosInfinity"
proof -
  have "semi_minor (Some PosInfinity) 0 = js_times (Some PosInfinity) (Math_sqrt (js_minus (Num 1) (js_times (Num 0) (Num 0))))"
    by (simp only: semi_minor_def)
  also have "js_times (Num 0) (Num 0) = Num 0"
    using MAX_VALUE_large by (simp add: js_times_Num)
  also have "js_minus (Num 1) (Num 0) = Num 1"
    using MAX_VALUE_large by (simp add: js_minus_Num)
  also have "Math_sqrt (Num 1) = Num 1"
    by (simp add: Math_sqrt_Num)
  also have "js_times (Some PosInfinity) (Num 1) = Some PosInfinity"
    by (simp add: Num_def infinity_of_def)
  finally show ?thesis .
qed

lemma orbit_point_overflow:
  "orbit_point (Some PosInfinity) (Some PosInfinity) 0 0 0 = Vector3 None None None"
  by (simp add: orbit_point_def ellipse_xy_def Num_def infinity_of_def js_minus_def)

lemma draw_orbit_overflow:
  "hd (line_points (hd (draw_orbit 1
       \<lparr>plname = None, pl_orbsmax = Some (10 ^ 308), pl_orbeccen = None, pl_orbincl = None, pl_orblper = None\<rparr>
       0 []))) = Vector3 None None None"
proof -
  let ?o = "\<lparr>plname = None, pl_orbsmax = Some (10 ^ 308), pl_orbeccen = None, pl_orbincl = None, pl_orblper = None\<rparr>"
  have pos: "(0::real) < 10 ^ 308"
    by (rule zero_less_power) simp
  have c: "clamped_ecc None = 0" "deg_to_rad None = 0"
    by (simp_all add: clamped_ecc_def deg_to_rad_def or_default_def)
  have o: "OrbitData.pl_orbsmax ?o = Some (10 ^ 308)" "OrbitData.pl_orbeccen ?o = None"
      "OrbitData.pl_orbincl ?o = None" "OrbitData.pl_orblper ?o = None"
    by (simp_all only: OrbitData.select_convs)
  have "hd (line_points (hd (draw_orbit 1 ?o 0 []))) =
      orbit_point (scaled_axis (10 ^ 308) 1) (semi_minor (scaled_axis (10 ^ 308) 1) (clamped_ecc None))
        (deg_to_rad None) (deg_to_rad None) (theta_of 0)"
    by (simp only: draw_orbit_drawn[OF o(1) pos] o append_Nil list.sel scene_object.sel hd_samples)
  then show ?thesis
    by (simp only: scaled_axis_overflow c semi_minor_overflow theta_of_0 orbit_point_overflow)
qed


text \<open>
  Claim C6, as amended. For an orbit with positive semi-major axis, eccentricity in
  \<open>[0, 1)\<close>, a non-negative star radius and twice the scaled axis within the range of a
  number, the drawn curve has exactly 181 samples; sample \<open>k\<close> is the point of the
  centre-based parametrisation \<open>(a cos t, b sin t)\<close> at the parameter \<open>t = k * (2 pi / 180)\<close>
  (equal steps of the parameter over one full turn), rotated by the argument of periastron
  and the inclination; the first and the last sample are the same point.
\<close>

theorem OrbitalPaths_curve_closed:
  assumes a: "OrbitData.pl_orbsmax orbit = Some orbsmax" "0 < orbsmax" "0 \<le> starRadius"
      "2 * (orbsmax * 3 + starRadius) \<le> MAX_VALUE"
    and e: "or_default (OrbitData.pl_orbeccen orbit) 0 = e" "0 \<le> e" "e < 1"
  shows "\<exists>a b inc argp points.
       a = orbsmax * 3 + starRadius
     \<and> b = a * sqrt (1 - min e 0.95 * min e 0.95)
     \<and> inc = or_default (OrbitData.pl_orbincl orbit) 0 * (pi / 180)
     \<and> argp = or_default (OrbitData.pl_orblper orbit) 0 * (pi / 180)
     \<and> draw_orbit starRadius orbit index scene = scene @ [Line points (orbit_colour index)]
     \<and> length points = 181
     \<and> (\<forall>k<181. points ! k =
           Vector3 (Num (a * cos (real k * (2 * pi / 180)) * cos argp
                         - b * sin (real k * (2 * pi / 180)) * sin argp))
                   (Num ((a * cos (real k * (2 * pi / 180)) * sin argp
                         + b * sin (real k * (2 * pi / 180)) * cos argp) * cos inc))
                   (Num ((a * cos (real k * (2 * pi / 180)) * sin argp
                         + b * sin (real k * (2 * pi / 180)) * cos argp) * sin inc)))
     \<and> hd points = Vector3 (Num (a * cos argp)) (Num (a * sin argp * cos inc)) (Num (a * sin argp * sin inc))
     \<and> last points = hd points"
proof -
  let ?a = "orbsmax * 3 + starRadius"
  let ?ecc = "clamped_ecc (OrbitData.pl_orbeccen orbit)"
  let ?b = "?a * sqrt (1 - min e 0.95 * min e 0.95)"
  let ?inc = "or_default (OrbitData.pl_orbincl orbit) 0 * (pi / 180)"
  let ?argp = "or_default (OrbitData.pl_orblper orbit) 0 * (pi / 180)"
  let ?f = "\<lambda>t. Vector3 (Num (?a * cos t * cos ?argp - ?b * sin t * sin ?argp))
                   (Num ((?a * cos t * sin ?argp + ?b * sin t * cos ?argp) * cos ?inc))
                   (Num ((?a * cos t * sin ?argp + ?b * sin t * cos ?argp) * sin ?inc))"
  let ?points = "map (\<lambda>k. ?f (theta_of k)) sample_indices"
  have ecc_eq: "?ecc = min e 0.95"
    using e by (simp add: clamped_ecc_def)
  have ecc: "- 1 \<le> ?ecc"
    using e by (simp add: ecc_eq)
  note r = draw_orbit_in_range[OF a ecc, unfolded ecc_eq]
  have drawn: "draw_orbit starRadius orbit index scene = scene @ [Line ?points (orbit_colour index)]"
    by (simp only: r(3) r(4) deg_to_rad_def)
  have len: "length ?points = 181"
    by (simp add: length_samples)
  have nth: "\<forall>k<181. ?points ! k = ?f (real k * (2 * pi / 180))"
    by (simp add: length_samples nth_samples theta_of_step)
  have hd: "hd ?points = Vector3 (Num (?a * cos ?argp)) (Num (?a * sin ?argp * cos ?inc)) (Num (?a * sin ?argp * sin ?inc))"
    by (simp only: hd_samples theta_of_0) simp
  have last: "last ?points = hd ?points"
    by (simp only: hd_samples last_samples theta_of_0 theta_of_180) simp
  from drawn len nth hd last show ?thesis
    by blast
qed

theorem OrbitalPaths_curve_closed_witness:
  "OrbitData.pl_orbsmax \<lparr>plname = None, pl_orbsmax = Some 1, pl_orbeccen = Some (1/2), pl_orbincl = Some 90, pl_orblper = Some 180\<rparr> = Some 1
   \<and> (0::real) < 1 \<and> (0::real) \<le> 1 \<and> 2 * (1 * 3 + 1) \<le> MAX_VALUE
   \<and> or_default (OrbitData.pl_orbeccen \<lparr>plname = None, pl_orbsmax = Some 1, pl_orbeccen = Some (1/2), pl_orbincl = Some 90, pl_orblper = Some 180\<rparr>) 0 = 1/2
   \<and> (0::real) \<le> 1/2 \<and> (1/2::real) < 1
   \<and> (\<exists>points.
        draw_orbit 1 \<lparr>plname = None, pl_orbsmax = Some 1, pl_orbeccen = Some (1/2), pl_orbincl = Some 90, pl_orblper = Some 180\<rparr> 0 []
          = [Line points (orbit_colour 0)]
        \<and> length points = 181
        \<and> hd points = Vector3 (Num (- 4)) (Num 0) (Num 0)
        \<and> last points = Vector3 (Num (- 4)) (Num 0) (Num 0))"
proof -
  let ?o = "\<lparr>plname = None, pl_orbsmax = Some 1, pl_orbeccen = Some (1/2), pl_orbincl = Some 90, pl_orblper = Some 180\<rparr>"
  have h1: "OrbitData.pl_orbsmax ?o = Some 1" by simp
  have h2: "(0::real) < 1" by simp
  have h3: "(0::real) \<le> 1" by simp
  have h4: "2 * (1 * 3 + 1) \<le> MAX_VALUE" using MAX_VALUE_large by simp
  have h5: "or_default (OrbitData.pl_orbeccen ?o) 0 = 1/2" by (simp add: or_default_def)
  have h6: "(0::real) \<le> 1/2" by simp
  have h7: "(1/2::real) < 1" by simp
  from OrbitalPaths_curve_closed[OF h1 h2 h3 h4 h5 h6 h7, of 0 "[]"]
  obtain a inc argp points where p: "a = (1::real) * 3 + 1"
      "inc = or_default (OrbitData.pl_orbincl ?o) 0 * (pi / 180)"
      "argp = or_default (OrbitData.pl_orblper ?o) 0 * (pi / 180)"
      "draw_orbit 1 ?o 0 [] = [] @ [Line points (orbit_colour 0)]"
      "length points = 181"
      "hd points = Vector3 (Num (a * cos argp)) (Num (a * sin argp * cos inc)) (Num (a * sin argp * sin inc))"
      "last points = hd points"
    by blast
  have "hd points = Vector3 (Num (- 4)) (Num 0) (Num 0)"
    by (simp add: p(1,2,3,6) or_default_def)
  with p(4,5,7)
  have "\<exists>points. draw_orbit 1 ?o 0 [] = [Line points (orbit_colour 0)]
        \<and> length points = 181
        \<and> hd points = Vector3 (Num (- 4)) (Num 0) (Num 0)
        \<and> last points = Vector3 (Num (- 4)) (Num 0) (Num 0)"
    by simp
  with h1 h2 h3 h4 h5 h6 h7 show ?thesis by blast
qed

text \<open>
  Claim C6 as stated fails: the parameter that the loop steps uniformly is not the true
  anomaly. At \<open>pl_orbsmax = 1\<close>, \<open>starRadius = 1\<close>, \<open>e = 1/2\<close> the samples \<open>0\<close> and \<open>90\<close> are
  \<open>(4, 0, 0)\<close> and \<open>(- 4, 0, 0)\<close>, on the major axis, half a turn apart seen from the star at
  the origin and seen from a focus; sample \<open>30\<close>, a third of the way (parameter \<open>pi / 3\<close>),
  is \<open>(2, 3, 0)\<close>, which is in the direction \<open>pi / 3\<close> neither from the star
  (\<open>2 sin (pi / 3) \<noteq> 3 cos (pi / 3)\<close>) nor from the focus \<open>(2, 0)\<close> of the drawn ellipse
  (it is straight above it); the point at true anomaly \<open>pi / 3\<close> of the focus-based
  formula is \<open>(6/5, 6 sqrt 3 / 5)\<close>. And beyond the range of a number the loop is not
  closed: at \<open>pl_orbsmax = 10^308\<close> the first point has \<^verbatim>\<open>NaN\<close> coordinates.
\<close>

theorem OrbitalPaths_sample_not_at_true_anomaly_counterexample:
  "line_points (hd (draw_orbit 1
       \<lparr>plname = None, pl_orbsmax = Some 1, pl_orbeccen = Some (1/2), pl_orbincl = None, pl_orblper = None\<rparr>
       0 [])) ! 0
     = Vector3 (Num 4) (Num 0) (Num 0)
   \<and> line_points (hd (draw_orbit 1
       \<lparr>plname = None, pl_orbsmax = Some 1, pl_orbeccen = Some (1/2), pl_orbincl = None, pl_orblper = None\<rparr>
       0 [])) ! 30
     = Vector3 (Num 2) (Num 3) (Num 0)
   \<and> line_points (hd (draw_orbit 1
       \<lparr>plname = None, pl_orbsmax = Some 1, pl_orbeccen = Some (1/2), pl_orbincl = None, pl_orblper = None\<rparr>
       0 [])) ! 90
     = Vector3 (Num (- 4)) (Num 0) (Num 0)
   \<and> theta_of 30 = pi / 3
   \<and> 2 * sin (theta_of 30) \<noteq> 3 * cos (theta_of 30)
   \<and> (2 - 4 * (1/2)) * sin (theta_of 30) \<noteq> 3 * cos (theta_of 30)
   \<and> spec_ellipsePoint 4 (1/2) (theta_of 30) = (6 / 5, 6 * sqrt 3 / 5)
   \<and> hd (line_points (hd (draw_orbit 1
       \<lparr>plname = None, pl_orbsmax = Some (10 ^ 308), pl_orbeccen = None, pl_orbincl = None, pl_orblper = None\<rparr>
       0 []))) = Vector3 None None None"
proof -
  let ?o = "\<lparr>plname = None, pl_orbsmax = Some 1, pl_orbeccen = Some (1/2), pl_orbincl = None, pl_orblper = None\<rparr>"
  have h4: "2 * (1 * 3 + 1) \<le> MAX_VALUE" using MAX_VALUE_large by simp
  have ecc: "clamped_ecc (OrbitData.pl_orbeccen ?o) = 1/2"
    by (simp add: clamped_ecc_def or_default_def)
  have s34: "sqrt (3 / 4) = sqrt 3 / 2"
    by (simp add: real_sqrt_divide)
  have prod: "sqrt 3 * sqrt 3 = 3"
    by simp
  note r = draw_orbit_in_range[of ?o 1 1, unfolded ecc]
  have nth: "line_points (hd (draw_orbit 1 ?o 0 [])) ! k =
      orbit_point (Num (1 * 3 + 1)) (Num ((1 * 3 + 1) * sqrt (1 - 1/2 * (1/2)))) (deg_to_rad None) (deg_to_rad None) (theta_of k)"
    if "k < 181" for k
    using r(3)[of 0 "[]"] h4 that by (simp add: length_samples nth_samples)
  have p0: "line_points (hd (draw_orbit 1 ?o 0 [])) ! 0 = Vector3 (Num 4) (Num 0) (Num 0)"
    using r(4)[of "deg_to_rad None" "deg_to_rad None" "theta_of 0"] h4
    by (simp add: nth theta_of_0 deg_to_rad_def or_default_def)
  have p30: "line_points (hd (draw_orbit 1 ?o 0 [])) ! 30 = Vector3 (Num 2) (Num 3) (Num 0)"
    using r(4)[of "deg_to_rad None" "deg_to_rad None" "theta_of 30"] h4 prod
    by (simp add: nth theta_of_30 deg_to_rad_def or_default_def cos_60 sin_60 s34)
  have p90: "line_points (hd (draw_orbit 1 ?o 0 [])) ! 90 = Vector3 (Num (- 4)) (Num 0) (Num 0)"
    using r(4)[of "deg_to_rad None" "deg_to_rad None" "theta_of 90"] h4
    by (simp add: nth theta_of_90 deg_to_rad_def or_default_def)
  have "sqrt 3 \<noteq> 3 / 2"
  proof
    assume "sqrt 3 = 3 / 2"
    then have "(sqrt 3)\<^sup>2 = (3 / 2)\<^sup>2" by (simp only:)
    then show False by (simp add: power2_eq_square)
  qed
  then have dir: "2 * sin (theta_of 30) \<noteq> 3 * cos (theta_of 30)"
    by (simp add: theta_of_30 cos_60 sin_60)
  have fdir: "(2 - 4 * (1/2)) * sin (theta_of 30) \<noteq> 3 * cos (theta_of 30)"
    by (simp add: theta_of_30 cos_60)
  have sp: "spec_ellipsePoint 4 (1/2) (theta_of 30) = (6 / 5, 6 * sqrt 3 / 5)"
    by (simp add: theta_of_30 spec_ellipsePoint_def power2_eq_square cos_60 sin_60)
  show ?thesis
    by (intro conjI p0 p30 p90 theta_of_30 dir fdir sp draw_orbit_overflow)
qed

lemma ratio_self: "0 < r \<Longrightarrow> r * s / r = (s::real)"
  by simp

lemma spec_ellipsePoint_at_pi:
  assumes "0 \<le> e" "e < 1"
  shows "fst (spec_ellipsePoint a e pi) = - (a * (1 + e))"
proof -
  have "1 - e \<noteq> 0" using assms by simp
  moreover have "1 - e\<^sup>2 = (1 + e) * (1 - e)"
    by (simp add: power2_eq_square algebra_simps)
  ultimately have "a * (1 - e\<^sup>2) / (1 - e) = a * (1 + e)"
    by simp
  then show ?thesis
    by (simp add: spec_ellipsePoint_def Let_def)
qed

text \<open>
  Claim C1, as amended. For an orbit with positive semi-major axis, eccentricity \<open>e\<close> in
  \<open>[0, 1)\<close>, a non-negative star radius and twice the scaled axis within the range of a
  number, the in-plane point of the curve at the parameter \<open>theta\<close> is the centre-based
  parametric point \<open>(a cos theta, b sin theta)\<close> with \<open>a = 3 * pl_orbsmax + starRadius\<close> and
  \<open>b = a * sqrt (1 - (min e 0.95)\<^sup>2)\<close>; the point of the curve is its rotation by the
  argument of periastron and the inclination; it lies on the ellipse
  \<open>(x/a)\<^sup>2 + (y/b)\<^sup>2 = 1\<close> centred on the star; and the curve agrees with the focus-based
  formula (taken at the same axis \<open>a\<close>) at every angle if and only if \<open>e = 0\<close>.
\<close>

theorem OrbitalPaths_point_centre_based:
  assumes a: "OrbitData.pl_orbsmax orbit = Some orbsmax" "0 < orbsmax" "0 \<le> starRadius"
      "2 * (orbsmax * 3 + starRadius) \<le> MAX_VALUE"
    and e: "or_default (OrbitData.pl_orbeccen orbit) 0 = e" "0 \<le> e" "e < 1"
  shows "\<exists>a b. a = orbsmax * 3 + starRadius \<and> 0 < a
     \<and> b = a * sqrt (1 - min e 0.95 * min e 0.95) \<and> 0 < b
     \<and> scaled_axis orbsmax starRadius = Num a
     \<and> semi_minor (Num a) (clamped_ecc (OrbitData.pl_orbeccen orbit)) = Num b
     \<and> draw_orbit starRadius orbit index scene =
         scene @ [Line (map (\<lambda>k. orbit_point (Num a) (Num b) (deg_to_rad (OrbitData.pl_orbincl orbit))
                    (deg_to_rad (OrbitData.pl_orblper orbit)) (theta_of k)) sample_indices) (orbit_colour index)]
     \<and> ellipse_xy (Num a) (Num b) theta = (Num (a * cos theta), Num (b * sin theta))
     \<and> orbit_point (Num a) (Num b) inc argp theta =
         Vector3 (Num (a * cos theta * cos argp - b * sin theta * sin argp))
                 (Num ((a * cos theta * sin argp + b * sin theta * cos argp) * cos inc))
                 (Num ((a * cos theta * sin argp + b * sin theta * cos argp) * sin inc))
     \<and> (a * cos theta / a)\<^sup>2 + (b * sin theta / b)\<^sup>2 = 1
     \<and> ((\<forall>t. (a * cos t, b * sin t) = spec_ellipsePoint a e t) \<longleftrightarrow> e = 0)"
proof -
  let ?a = "orbsmax * 3 + starRadius"
  let ?ecc = "clamped_ecc (OrbitData.pl_orbeccen orbit)"
  let ?b = "?a * sqrt (1 - min e 0.95 * min e 0.95)"
  have apos: "0 < ?a"
    using a by (simp add: add_pos_nonneg)
  have ecc_eq: "?ecc = min e 0.95"
    using e by (simp add: clamped_ecc_def)
  have ecc: "- 1 \<le> ?ecc"
    using e by (simp add: ecc_eq)
  note r = draw_orbit_in_range[OF a ecc, unfolded ecc_eq]
  have m: "- 1 < min e 0.95" "min e 0.95 < 1"
    using e by simp_all
  from square_less_1[OF m] have "0 < sqrt (1 - min e 0.95 * min e 0.95)"
    by simp
  with apos have bpos: "0 < ?b"
    by simp
  have "\<bar>?b\<bar> \<le> MAX_VALUE"
  proof -
    have "0 \<le> 1 - min e 0.95 * min e 0.95" "1 - min e 0.95 * min e 0.95 \<le> 1"
      using square_less_1[OF m] by simp_all
    then have "\<bar>sqrt (1 - min e 0.95 * min e 0.95)\<bar> \<le> 1"
      by (simp only: abs_of_nonneg real_sqrt_ge_zero real_sqrt_le_1_iff)
    from abs_times_unit[OF _ this, of ?a MAX_VALUE] apos a(4) show ?thesis by simp
  qed
  moreover have "\<bar>?a\<bar> \<le> MAX_VALUE"
    using apos a(4) by simp
  ultimately have xy: "ellipse_xy (Num ?a) (Num ?b) theta = (Num (?a * cos theta), Num (?b * sin theta))"
    by (intro ellipse_xy_Num)
  have "?a * cos theta / ?a = cos theta" "?b * sin theta / ?b = sin theta"
    using ratio_self[OF apos] ratio_self[OF bpos] by blast+
  then have "(?a * cos theta / ?a)\<^sup>2 + (?b * sin theta / ?b)\<^sup>2 = (cos theta)\<^sup>2 + (sin theta)\<^sup>2"
    by (simp only:)
  then have onellipse: "(?a * cos theta / ?a)\<^sup>2 + (?b * sin theta / ?b)\<^sup>2 = 1"
    by simp
  have circ: "(\<forall>t. (?a * cos t, ?b * sin t) = spec_ellipsePoint ?a e t) \<longleftrightarrow> e = 0"
  proof
    assume "\<forall>t. (?a * cos t, ?b * sin t) = spec_ellipsePoint ?a e t"
    then have "fst (?a * cos pi, ?b * sin pi) = fst (spec_ellipsePoint ?a e pi)"
      by (simp only:)
    then have "- ?a = - (?a * (1 + e))"
      by (simp only: spec_ellipsePoint_at_pi[OF e(2,3)]) simp
    then have "?a * e = 0"
      by (simp add: algebra_simps)
    with apos show "e = 0"
      by simp
  next
    assume "e = 0"
    then show "\<forall>t. (?a * cos t, ?b * sin t) = spec_ellipsePoint ?a e t"
      by (simp add: spec_ellipsePoint_def Let_def)
  qed
  have sm: "semi_minor (Num ?a) ?ecc = Num ?b"
    using r(2) by (simp only: ecc_eq)
  show ?thesis
    apply (rule exI[of _ ?a])
    apply (rule exI[of _ ?b])
    apply (intro conjI refl apos bpos r(1) sm r(3) r(4) xy onellipse circ)
    done
qed

theorem OrbitalPaths_point_centre_based_witness:
  "OrbitData.pl_orbsmax \<lparr>plname = None, pl_orbsmax = Some 1, pl_orbeccen = Some (1/2), pl_orbincl = None, pl_orblper = None\<rparr> = Some 1
   \<and> (0::real) < 1 \<and> (0::real) \<le> 1 \<and> 2 * (1 * 3 + 1) \<le> MAX_VALUE
   \<and> or_default (OrbitData.pl_orbeccen \<lparr>plname = None, pl_orbsmax = Some 1, pl_orbeccen = Some (1/2), pl_orbincl = None, pl_orblper = None\<rparr>) 0 = 1/2
   \<and> (0::real) \<le> 1/2 \<and> (1/2::real) < 1
   \<and> scaled_axis 1 1 = Num 4
   \<and> semi_minor (Num 4) (1/2) = Num (2 * sqrt 3)
   \<and> ellipse_xy (Num 4) (Num (2 * sqrt 3)) pi = (Num (- 4), Num 0)
   \<and> ellipse_xy (Num 4) (Num (2 * sqrt 3)) (pi / 2) = (Num 0, Num (2 * sqrt 3))"
proof -
  let ?o = "\<lparr>plname = None, pl_orbsmax = Some 1, pl_orbeccen = Some (1/2), pl_orbincl = None, pl_orblper = None\<rparr>"
  have h1: "OrbitData.pl_orbsmax ?o = Some 1" by simp
  have h2: "(0::real) < 1" by simp
  have h3: "(0::real) \<le> 1" by simp
  have h4: "2 * (1 * 3 + 1) \<le> MAX_VALUE" using MAX_VALUE_large by simp
  have h5: "or_default (OrbitData.pl_orbeccen ?o) 0 = 1/2" by (simp add: or_default_def)
  have h6: "(0::real) \<le> 1/2" by simp
  have h7: "(1/2::real) < 1" by simp
  have c: "clamped_ecc (OrbitData.pl_orbeccen ?o) = 1/2"
    by (simp add: clamped_ecc_def or_default_def)
  have s34: "sqrt (3 / 4) = sqrt 3 / 2"
    by (simp add: real_sqrt_divide)
  from OrbitalPaths_point_centre_based[OF h1 h2 h3 h4 h5 h6 h7, of 0 "[]" pi]
  obtain a b where p: "a = (1::real) * 3 + 1" "b = a * sqrt (1 - min (1/2) 0.95 * min (1/2) 0.95)"
      "scaled_axis 1 1 = Num a" "semi_minor (Num a) (clamped_ecc (OrbitData.pl_orbeccen ?o)) = Num b"
      "ellipse_xy (Num a) (Num b) pi = (Num (a * cos pi), Num (b * sin pi))"
    by blast
  from OrbitalPaths_point_centre_based[OF h1 h2 h3 h4 h5 h6 h7, of 0 "[]" "pi / 2"]
  obtain a' b' where q: "a' = (1::real) * 3 + 1" "b' = a' * sqrt (1 - min (1/2) 0.95 * min (1/2) 0.95)"
      "ellipse_xy (Num a') (Num b') (pi / 2) = (Num (a' * cos (pi / 2)), Num (b' * sin (pi / 2)))"
    by blast
  have ab: "a = 4" "b = 2 * sqrt 3" "a' = 4" "b' = 2 * sqrt 3"
    by (simp_all add: p(1,2) q(1,2) s34)
  have w1: "scaled_axis 1 1 = Num 4 \<and> semi_minor (Num 4) (1/2) = Num (2 * sqrt 3)
      \<and> ellipse_xy (Num 4) (Num (2 * sqrt 3)) pi = (Num (- 4), Num 0)"
    using p(3,4,5) unfolding ab c by simp
  have w2: "ellipse_xy (Num 4) (Num (2 * sqrt 3)) (pi / 2) = (Num 0, Num (2 * sqrt 3))"
    using q(3) unfolding ab by simp
  from h1 h2 h3 h4 h5 h6 h7 w1 w2 show ?thesis by blast
qed

text \<open>
  Claim C1 as stated fails: at \<open>pl_orbsmax = 1\<close>, \<open>starRadius = 1\<close>, \<open>e = 1/2\<close> and the
  sample \<open>i = 90\<close> (\<open>theta = pi\<close>) the drawn point is \<open>(- 4, 0, 0)\<close>, on the centre-based
  ellipse with \<open>a = 4\<close>, while the focus-based formula gives \<open>x = - 6\<close> for the scaled axis
  \<open>a = 4\<close> and \<open>x = - 3/2\<close> for the catalogue axis \<open>a = 1\<close>. And beyond the range of a
  number the axis is no real number: at \<open>pl_orbsmax = 10^308\<close> it is \<^verbatim>\<open>Infinity\<close>.
\<close>

theorem OrbitalPaths_focus_formula_counterexample:
  "line_points (hd (draw_orbit 1
       \<lparr>plname = None, pl_orbsmax = Some 1, pl_orbeccen = Some (1/2), pl_orbincl = None, pl_orblper = None\<rparr>
       0 [])) ! 90
     = Vector3 (Num (- 4)) (Num 0) (Num 0)
   \<and> scaled_axis 1 1 = Num 4
   \<and> ellipse_xy (scaled_axis 1 1) (semi_minor (scaled_axis 1 1) (clamped_ecc (Some (1/2)))) (theta_of 90)
     = (Num (- 4), Num 0)
   \<and> spec_ellipsePoint 4 (1/2) (theta_of 90) = (- 6, 0)
   \<and> spec_ellipsePoint 1 (1/2) (theta_of 90) = (- 3/2, 0)
   \<and> fst (ellipse_xy (scaled_axis 1 1) (semi_minor (scaled_axis 1 1) (clamped_ecc (Some (1/2)))) (theta_of 90))
     \<noteq> Num (fst (spec_ellipsePoint 4 (1/2) (theta_of 90)))
   \<and> scaled_axis (10 ^ 308) 1 = Some PosInfinity"
proof -
  let ?o = "\<lparr>plname = None, pl_orbsmax = Some 1, pl_orbeccen = Some (1/2), pl_orbincl = None, pl_orblper = None\<rparr>"
  have h4: "2 * (1 * 3 + 1) \<le> MAX_VALUE" using MAX_VALUE_large by simp
  have ecc: "clamped_ecc (OrbitData.pl_orbeccen ?o) = 1/2" "clamped_ecc (Some (1/2)) = 1/2"
    by (simp_all add: clamped_ecc_def or_default_def)
  note r = draw_orbit_in_range[of ?o 1 1, unfolded ecc]
  have sa: "scaled_axis 1 1 = Num 4"
    using r(1) h4 by simp
  have sm: "semi_minor (Num 4) (1/2) = Num (4 * sqrt (1 - 1/2 * (1/2)))"
    using r(2) h4 by simp
  have "\<bar>4 * sqrt (1 - 1/2 * (1/2))\<bar> \<le> MAX_VALUE"
    using abs_times_unit[of 4 MAX_VALUE "sqrt (1 - 1/2 * (1/2))"] MAX_VALUE_large by simp
  then have xy: "ellipse_xy (scaled_axis 1 1) (semi_minor (scaled_axis 1 1) (clamped_ecc (Some (1/2)))) (theta_of 90)
     = (Num (- 4), Num 0)"
    using MAX_VALUE_large by (simp add: sa sm ecc ellipse_xy_Num theta_of_90)
  have sp: "spec_ellipsePoint 4 (1/2) (theta_of 90) = (- 6, 0)"
    "spec_ellipsePoint 1 (1/2) (theta_of 90) = (- 3/2, 0)"
    by (simp_all add: theta_of_90 spec_ellipsePoint_def power2_eq_square)
  have "line_points (hd (draw_orbit 1 ?o 0 [])) ! 90 =
      orbit_point (Num (1 * 3 + 1)) (Num ((1 * 3 + 1) * sqrt (1 - 1/2 * (1/2)))) (deg_to_rad None) (deg_to_rad None) (theta_of 90)"
    using r(3)[of 0 "[]"] h4 by (simp add: length_samples nth_samples)
  also have "\<dots> = Vector3 (Num (- 4)) (Num 0) (Num 0)"
    using r(4)[of "deg_to_rad None" "deg_to_rad None" "theta_of 90"] h4
    by (simp add: theta_of_90 deg_to_rad_def or_default_def)
  finally have pt: "line_points (hd (draw_orbit 1 ?o 0 [])) ! 90 = Vector3 (Num (- 4)) (Num 0) (Num 0)" .
  have ne: "fst (ellipse_xy (scaled_axis 1 1) (semi_minor (scaled_axis 1 1) (clamped_ecc (Some (1/2)))) (theta_of 90))
     \<noteq> Num (fst (spec_ellipsePoint 4 (1/2) (theta_of 90)))"
    by (simp only: xy sp) (simp add: Num_def)
  from pt sa xy sp ne scaled_axis_overflow show ?thesis
    by blast
qed

text \<open>
  Claim C10 at the input \<open>pl_orbsmax = 1\<close>, \<open>pl_orbeccen = - 2\<close>, \<open>starRadius = 1\<close>: the
  eccentricity used is \<open>min (- 2) 0.95 = - 2\<close>, \<open>1 - ecc * ecc\<close> is negative, the semi-minor
  axis is \<^verbatim>\<open>NaN\<close>, and every coordinate of all 181 curve points is \<^verbatim>\<open>NaN\<close>.
\<close>

theorem draw_orbit_negative_eccentricity_NaN:
  "clamped_ecc (Some (- 2)) = - 2
   \<and> semi_minor (scaled_axis 1 1) (clamped_ecc (Some (- 2))) = None
   \<and> draw_orbit 1 \<lparr>plname = None, pl_orbsmax = Some 1, pl_orbeccen = Some (- 2), pl_orbincl = None, pl_orblper = None\<rparr> 0 []
       = [Line (replicate 181 (Vector3 None None None)) (orbit_colour 0)]"
proof -
  let ?o = "\<lparr>plname = None, pl_orbsmax = Some 1, pl_orbeccen = Some (- 2), pl_orbincl = None, pl_orblper = None\<rparr>"
  have c: "clamped_ecc (Some (- 2)) = - 2"
    by (simp add: clamped_ecc_def or_default_def)
  have b: "semi_minor (scaled_axis 1 1) (clamped_ecc (Some (- 2))) = None"
    by (simp add: c semi_minor_NaN)
  have "draw_orbit 1 ?o 0 [] =
      [Line (map (\<lambda>k. orbit_point (scaled_axis 1 1) None (deg_to_rad None) (deg_to_rad None) (theta_of k))
         sample_indices) (orbit_colour 0)]"
    using draw_orbit_drawn[of ?o 1 1 0 "[]"] by (simp add: b)
  then have "draw_orbit 1 ?o 0 [] = [Line (replicate 181 (Vector3 None None None)) (orbit_colour 0)]"
    by (simp add: orbit_point_NaN map_replicate_const length_samples)
  with c b show ?thesis by blast
qed

lemma draw_orbit_finite_points:
  assumes a: "OrbitData.pl_orbsmax orbit = Some orbsmax" "0 < orbsmax" "0 \<le> starRadius"
      "2 * (orbsmax * 3 + starRadius) \<le> MAX_VALUE"
    and e: "- 1 \<le> clamped_ecc (OrbitData.pl_orbeccen orbit)"
  shows "\<forall>pt \<in> set (line_points (last (draw_orbit starRadius orbit index scene))).
           \<exists>x y z. pt = Vector3 (Num x) (Num y) (Num z)"
  by (auto simp: draw_orbit_in_range(3)[OF a e] draw_orbit_in_range(4)[OF a e])



lemma draw_orbit_length:
  "length (draw_orbit starRadius orbit index scene) =
     length scene + (if has_axis (OrbitData.pl_orbsmax orbit) then 1 else 0)"
  by (auto simp: has_axis_def draw_orbit_def Let_def split: option.splits)


lemma render_planet_length:
  "length (star_scene (render_planet gen peri planet idx view)) =
     length (star_scene view) + (if has_axis (PlanetRecord.pl_orbsmax planet) then 2 else 0)"
  by (auto simp: has_axis_def render_planet_def Let_def split: option.splits)

lemma orbits_forEach_append:
  "orbits_forEach starRadius (xs @ ys) index scene =
     orbits_forEach starRadius ys (index + length xs) (orbits_forEach starRadius xs index scene)"
  by (induction xs arbitrary: index scene) simp_all

lemma planets_forEach_append:
  "planets_forEach gen peri (xs @ ys) idx view =
     planets_forEach gen peri ys (idx + length xs) (planets_forEach gen peri xs idx view)"
  by (induction xs arbitrary: idx view) simp_all

lemma orbits_forEach_length:
  "length (orbits_forEach starRadius orbits index scene) =
     length scene + length (filter (\<lambda>orbit. has_axis (OrbitData.pl_orbsmax orbit)) orbits)"
  by (induction orbits arbitrary: index scene) (simp_all add: draw_orbit_length)

lemma planets_forEach_length:
  "length (star_scene (planets_forEach gen peri planets idx view)) =
     length (star_scene view) + 2 * length (filter (\<lambda>planet. has_axis (PlanetRecord.pl_orbsmax planet)) planets)"
  by (induction planets arbitrary: idx view) (simp_all add: render_planet_length)

section \<open>Records the loops skip, and records they do not\<close>


section \<open>Picking volumes and visible bodies\<close>

lemma sunRealRadius_eq: "sunRealRadius = 696000"
  by (simp add: sunRealRadius_def realRadii_def or_default_def)

lemma displayRadius_ge: "0.15 \<le> displayRadius n"
  by (simp add: displayRadius_def Let_def)

lemma hitboxRadius_ge: "0 \<le> r \<Longrightarrow> r \<le> hitboxRadius r"
  by (simp add: hitboxRadius_def max_def)

lemma planetRadius_scene_ge: "MIN_PLANET_SIZE \<le> planetRadius_scene rade"
  by (simp add: planetRadius_scene_def Let_def)

lemma render_planet_meshes:
  "(\<forall>m \<in> set (planetMeshes view). MIN_PLANET_SIZE \<le> mesh_radius m) \<Longrightarrow>
   (\<forall>m \<in> set (planetMeshes (render_planet gen peri planet idx view)). MIN_PLANET_SIZE \<le> mesh_radius m)"
  by (auto simp: render_planet_def Let_def planetRadius_scene_ge split: option.splits)

lemma planets_forEach_meshes:
  "(\<forall>m \<in> set (planetMeshes view). MIN_PLANET_SIZE \<le> mesh_radius m) \<Longrightarrow>
   (\<forall>m \<in> set (planetMeshes (planets_forEach gen peri planets idx view)). MIN_PLANET_SIZE \<le> mesh_radius m)"
proof (induction planets arbitrary: idx view)
  case Nil
  then show ?case by simp
next
  case (Cons planet rest)
  from Cons.prems have "\<forall>m \<in> set (planetMeshes (render_planet gen peri planet idx view)). MIN_PLANET_SIZE \<le> mesh_radius m"
    by (rule render_planet_meshes)
  then show ?case
    using Cons.IH by simp
qed

text \<open>
  Claim C9. In the solar overview the hit sphere of a planet is centred on the planet and
  has radius \<open>max (3 * displayRadius) 2.5\<close>, at least the radius of the visible sphere; in
  the star view every planet sphere (the picked geometry itself) has radius at least the
  floor \<open>MIN_PLANET_SIZE = 0.5\<close>.
\<close>

theorem picking_volume_encloses_body:
  "planet_geometry_radius (fst (create_planet pData)) = displayRadius (name pData)
   \<and> hitbox_geometry_radius (snd (create_planet pData)) = max (3 * displayRadius (name pData)) 2.5
   \<and> hitbox_world_position (snd (create_planet pData)) = planet_position (fst (create_planet pData))
   \<and> planet_geometry_radius (fst (create_planet pData)) \<le> hitbox_geometry_radius (snd (create_planet pData))
   \<and> MIN_PLANET_SIZE = 0.5
   \<and> MIN_PLANET_SIZE \<le> planetRadius_scene rade
   \<and> (\<forall>m \<in> set (planetMeshes (planets_forEach gen peri planets 0 \<lparr>star_scene = [], planetMeshes = []\<rparr>)).
         MIN_PLANET_SIZE \<le> mesh_radius m)"
proof -
  have "0 \<le> displayRadius (name pData)"
    using displayRadius_ge[of "name pData"] by simp
  then have "displayRadius (name pData) \<le> hitboxRadius (displayRadius (name pData))"
    by (rule hitboxRadius_ge)
  then have encl: "planet_geometry_radius (fst (create_planet pData))
      \<le> hitbox_geometry_radius (snd (create_planet pData))"
    by (simp add: create_planet_def Let_def)
  have geo: "planet_geometry_radius (fst (create_planet pData)) = displayRadius (name pData)"
    "hitbox_geometry_radius (snd (create_planet pData)) = max (3 * displayRadius (name pData)) 2.5"
    "hitbox_world_position (snd (create_planet pData)) = planet_position (fst (create_planet pData))"
    by (simp_all add: create_planet_def Let_def hitboxRadius_def mult.commute)
  have floor: "MIN_PLANET_SIZE = 0.5"
    by (simp add: MIN_PLANET_SIZE_def)
  have meshes: "\<forall>m \<in> set (planetMeshes (planets_forEach gen peri planets 0 \<lparr>star_scene = [], planetMeshes = []\<rparr>)).
         MIN_PLANET_SIZE \<le> mesh_radius m"
    by (rule planets_forEach_meshes) simp
  from geo encl floor planetRadius_scene_ge[of rade] meshes show ?thesis
    by blast
qed



theorem picking_volume_encloses_body_witness:
  "planetMeshes (planets_forEach (\<lambda>e. []) (\<lambda>e. Vector3 1 0 0)
      [\<lparr>pl_name = ''b'', pl_orbsmax = Some 1, pl_orbeccen = None, pl_orbincl = None, pl_orblper = None, pl_rade = Some 1\<rparr>]
      0 \<lparr>star_scene = [], planetMeshes = []\<rparr>)
     = [\<lparr>mesh_name = ''b'', mesh_radius = 1 / 2, mesh_position = Vector3 50 0 0, mesh_colour = 0\<rparr>]
   \<and> MIN_PLANET_SIZE \<le> mesh_radius \<lparr>mesh_name = ''b'', mesh_radius = 1 / 2, mesh_position = Vector3 50 0 0, mesh_colour = 0\<rparr>
   \<and> planet_geometry_radius (fst (create_planet \<lparr>name = ''Earth'', orbitalRadius = 1, orbitalPeriod = 1\<rparr>))
       \<le> hitbox_geometry_radius (snd (create_planet \<lparr>name = ''Earth'', orbitalRadius = 1, orbitalPeriod = 1\<rparr>))"
proof -
  let ?P = "[\<lparr>pl_name = ''b'', pl_orbsmax = Some 1, pl_orbeccen = None, pl_orbincl = None, pl_orblper = None, pl_rade = Some 1\<rparr>]"
  let ?m = "\<lparr>mesh_name = ''b'', mesh_radius = 1 / 2, mesh_position = Vector3 50 0 0, mesh_colour = 0\<rparr>"
  have ev: "planetMeshes (planets_forEach (\<lambda>e. []) (\<lambda>e. Vector3 1 0 0) ?P 0 \<lparr>star_scene = [], planetMeshes = []\<rparr>) = [?m]"
    by (simp add: render_planet_def Let_def planet_label_def planetRadius_scene_def or_default_def
        EARTH_RADIUS_AU_def AU_TO_SCENE_UNITS_def SYSTEM_SCALE_def MIN_PLANET_SIZE_def to_scene_def)
  note th = picking_volume_encloses_body[of "\<lparr>name = ''Earth'', orbitalRadius = 1, orbitalPeriod = 1\<rparr>"
      "Some 1" "\<lambda>e. []" "\<lambda>e. Vector3 1 0 0" ?P]
  from th have "\<forall>m \<in> set (planetMeshes (planets_forEach (\<lambda>e. []) (\<lambda>e. Vector3 1 0 0) ?P 0 \<lparr>star_scene = [], planetMeshes = []\<rparr>)).
      MIN_PLANET_SIZE \<le> mesh_radius m"
    by blast
  then have "MIN_PLANET_SIZE \<le> mesh_radius ?m"
    by (simp only: ev) simp
  with ev th show ?thesis by blast
qed

text \<open>
  Claim C2, as amended. A record with eccentricity \<open>e \<ge> 1\<close> and a positive semi-major axis
  is not skipped. OrbitalPaths draws one curve of 181 points for it, computed with the
  eccentricity 0.95 in place of \<open>e\<close> (and the points are finite when twice the scaled axis
  is in range); the records after it are drawn with the indices they have in the list.
  StarRenderer tests no eccentricity: it hands \<open>e\<close> unchanged to \<^verbatim>\<open>generate3DOrbit\<close> and to
  \<^verbatim>\<open>getPeriapsisPosition\<close>, adds the orbit line made of the points returned and a body at
  the periapsis returned, and goes on with the next record.
\<close>

theorem eccentric_record_drawn_clamped:
  assumes o: "OrbitData.pl_orbsmax orbit = Some a" "OrbitData.pl_orbeccen orbit = Some e"
    and p: "PlanetRecord.pl_orbsmax planet = Some a" "PlanetRecord.pl_orbeccen planet = Some e"
    and a: "0 < a" and e: "1 \<le> e"
  shows "clamped_ecc (OrbitData.pl_orbeccen orbit) = 0.95
    \<and> draw_orbit starRadius orbit index scene =
        scene @ [Line (map (\<lambda>k. orbit_point (scaled_axis a starRadius)
                          (semi_minor (scaled_axis a starRadius) 0.95)
                          (deg_to_rad (OrbitData.pl_orbincl orbit)) (deg_to_rad (OrbitData.pl_orblper orbit))
                          (theta_of k)) sample_indices)
                   (orbit_colour index)]
    \<and> length (line_points (last (draw_orbit starRadius orbit index scene))) = 181
    \<and> (0 \<le> starRadius \<and> 2 * (a * 3 + starRadius) \<le> MAX_VALUE \<longrightarrow>
          semi_minor (scaled_axis a starRadius) 0.95 = Num ((a * 3 + starRadius) * sqrt (1 - 0.95 * 0.95))
          \<and> (\<forall>pt \<in> set (line_points (last (draw_orbit starRadius orbit index scene))).
                \<exists>x y z. pt = Vector3 (Num x) (Num y) (Num z)))
    \<and> orbits_forEach starRadius (before @ orbit # after) index scene =
        orbits_forEach starRadius after (index + length before + 1)
          (orbits_forEach starRadius before index scene
           @ [Line (map (\<lambda>k. orbit_point (scaled_axis a starRadius)
                          (semi_minor (scaled_axis a starRadius) 0.95)
                          (deg_to_rad (OrbitData.pl_orbincl orbit)) (deg_to_rad (OrbitData.pl_orblper orbit))
                          (theta_of k)) sample_indices)
                   (orbit_colour (index + length before))])
    \<and> length (orbits_forEach starRadius (before @ orbit # after) index scene) =
        length scene + length (filter (\<lambda>orbit. has_axis (OrbitData.pl_orbsmax orbit)) (before @ after)) + 1
    \<and> render_planet gen peri planet idx view =
        \<lparr>star_scene = star_scene view @
           [OrbitLine (map to_scene
              (gen (OrbitalElements a e (PlanetRecord.pl_orbincl planet) (PlanetRecord.pl_orblper planet)))),
            PlanetMesh \<lparr>mesh_name = planet_label (pl_name planet),
                        mesh_radius = planetRadius_scene (pl_rade planet),
                        mesh_position = to_scene
                          (peri (OrbitalElements a e (PlanetRecord.pl_orbincl planet) (PlanetRecord.pl_orblper planet))),
                        mesh_colour = idx mod 5\<rparr>],
         planetMeshes = planetMeshes view @
           [\<lparr>mesh_name = planet_label (pl_name planet),
             mesh_radius = planetRadius_scene (pl_rade planet),
             mesh_position = to_scene
               (peri (OrbitalElements a e (PlanetRecord.pl_orbincl planet) (PlanetRecord.pl_orblper planet))),
             mesh_colour = idx mod 5\<rparr>]\<rparr>
    \<and> planets_forEach gen peri (pbefore @ planet # pafter) idx view =
        planets_forEach gen peri pafter (idx + length pbefore + 1)
          (render_planet gen peri planet (idx + length pbefore) (planets_forEach gen peri pbefore idx view))
    \<and> length (star_scene (planets_forEach gen peri (pbefore @ planet # pafter) idx view)) =
        length (star_scene view)
          + 2 * length (filter (\<lambda>planet. has_axis (PlanetRecord.pl_orbsmax planet)) (pbefore @ pafter)) + 2"
proof -
  have od: "or_default (Some e) 0 = e"
    using e by (simp add: or_default_def)
  have c: "clamped_ecc (OrbitData.pl_orbeccen orbit) = 0.95"
    using e by (simp add: o clamped_ecc_def od)
  have d: "draw_orbit starRadius orbit i sc =
        sc @ [Line (map (\<lambda>k. orbit_point (scaled_axis a starRadius)
                          (semi_minor (scaled_axis a starRadius) 0.95)
                          (deg_to_rad (OrbitData.pl_orbincl orbit)) (deg_to_rad (OrbitData.pl_orblper orbit))
                          (theta_of k)) sample_indices)
                   (orbit_colour i)]" for i sc
    using draw_orbit_drawn[OF o(1) a, of starRadius i sc] by (simp only: c)
  have len: "length (line_points (last (draw_orbit starRadius orbit index scene))) = 181"
    by (simp add: d length_samples)
  have fin: "0 \<le> starRadius \<and> 2 * (a * 3 + starRadius) \<le> MAX_VALUE \<longrightarrow>
          semi_minor (scaled_axis a starRadius) 0.95 = Num ((a * 3 + starRadius) * sqrt (1 - 0.95 * 0.95))
          \<and> (\<forall>pt \<in> set (line_points (last (draw_orbit starRadius orbit index scene))).
                \<exists>x y z. pt = Vector3 (Num x) (Num y) (Num z))"
  proof (intro impI, elim conjE)
    assume r: "0 \<le> starRadius" "2 * (a * 3 + starRadius) \<le> MAX_VALUE"
    have ce: "- 1 \<le> clamped_ecc (OrbitData.pl_orbeccen orbit)"
      by (simp add: c)
    note ir = draw_orbit_in_range[OF o(1) a r ce, unfolded c]
    have "semi_minor (scaled_axis a starRadius) 0.95 = Num ((a * 3 + starRadius) * sqrt (1 - 0.95 * 0.95))"
      by (simp only: ir(1) ir(2))
    with draw_orbit_finite_points[OF o(1) a r ce, of index scene]
    show "semi_minor (scaled_axis a starRadius) 0.95 = Num ((a * 3 + starRadius) * sqrt (1 - 0.95 * 0.95))
          \<and> (\<forall>pt \<in> set (line_points (last (draw_orbit starRadius orbit index scene))).
                \<exists>x y z. pt = Vector3 (Num x) (Num y) (Num z))"
      by (rule conjI[rotated])
  qed
  have ha: "has_axis (OrbitData.pl_orbsmax orbit)" "has_axis (PlanetRecord.pl_orbsmax planet)"
    using a by (simp_all add: has_axis_def o p)
  have each: "orbits_forEach starRadius (before @ orbit # after) index scene =
        orbits_forEach starRadius after (index + length before + 1)
          (orbits_forEach starRadius before index scene
           @ [Line (map (\<lambda>k. orbit_point (scaled_axis a starRadius)
                          (semi_minor (scaled_axis a starRadius) 0.95)
                          (deg_to_rad (OrbitData.pl_orbincl orbit)) (deg_to_rad (OrbitData.pl_orblper orbit))
                          (theta_of k)) sample_indices)
                   (orbit_colour (index + length before))])"
    by (simp add: orbits_forEach_append d)
  have elen: "length (orbits_forEach starRadius (before @ orbit # after) index scene) =
        length scene + length (filter (\<lambda>orbit. has_axis (OrbitData.pl_orbsmax orbit)) (before @ after)) + 1"
    using ha by (simp add: orbits_forEach_length)
  have r: "render_planet gen peri planet idx view =
        \<lparr>star_scene = star_scene view @
           [OrbitLine (map to_scene
              (gen (OrbitalElements a e (PlanetRecord.pl_orbincl planet) (PlanetRecord.pl_orblper planet)))),
            PlanetMesh \<lparr>mesh_name = planet_label (pl_name planet),
                        mesh_radius = planetRadius_scene (pl_rade planet),
                        mesh_position = to_scene
                          (peri (OrbitalElements a e (PlanetRecord.pl_orbincl planet) (PlanetRecord.pl_orblper planet))),
                        mesh_colour = idx mod 5\<rparr>],
         planetMeshes = planetMeshes view @
           [\<lparr>mesh_name = planet_label (pl_name planet),
             mesh_radius = planetRadius_scene (pl_rade planet),
             mesh_position = to_scene
               (peri (OrbitalElements a e (PlanetRecord.pl_orbincl planet) (PlanetRecord.pl_orblper planet))),
             mesh_colour = idx mod 5\<rparr>]\<rparr>"
    using a by (simp add: render_planet_def p od Let_def)
  have peach: "planets_forEach gen peri (pbefore @ planet # pafter) idx view =
        planets_forEach gen peri pafter (idx + length pbefore + 1)
          (render_planet gen peri planet (idx + length pbefore) (planets_forEach gen peri pbefore idx view))"
    by (simp add: planets_forEach_append)
  have plen: "length (star_scene (planets_forEach gen peri (pbefore @ planet # pafter) idx view)) =
        length (star_scene view)
          + 2 * length (filter (\<lambda>planet. has_axis (PlanetRecord.pl_orbsmax planet)) (pbefore @ pafter)) + 2"
    using ha by (simp add: planets_forEach_length)
  show ?thesis
    by (intro conjI c d len fin each elen r peach plen)
qed

text \<open>
  Claim C2 as stated fails: the record \<open>pl_orbsmax = 1\<close>, \<open>pl_orbeccen = 1.2\<close> leaves one
  curve in the scene of OrbitalPaths, and a curve and a body in the scene of StarRenderer
  (whatever the two library functions return; here an empty orbit and the origin).
\<close>

theorem eccentric_record_not_skipped_counterexample:
  "draw_orbit 1 \<lparr>plname = None, pl_orbsmax = Some 1, pl_orbeccen = Some 1.2, pl_orbincl = None, pl_orblper = None\<rparr> 0 [] \<noteq> []
   \<and> length (draw_orbit 1 \<lparr>plname = None, pl_orbsmax = Some 1, pl_orbeccen = Some 1.2, pl_orbincl = None, pl_orblper = None\<rparr> 0 []) = 1
   \<and> length (star_scene (render_planet (\<lambda>e. []) (\<lambda>e. Vector3 0 0 0)
        \<lparr>pl_name = ''b'', pl_orbsmax = Some 1, pl_orbeccen = Some 1.2, pl_orbincl = None, pl_orblper = None, pl_rade = None\<rparr>
        0 \<lparr>star_scene = [], planetMeshes = []\<rparr>)) = 2"
  by (simp add: draw_orbit_def Let_def render_planet_def)

theorem eccentric_record_drawn_clamped_witness:
  "OrbitData.pl_orbsmax \<lparr>plname = None, pl_orbsmax = Some 1, pl_orbeccen = Some 1.2, pl_orbincl = None, pl_orblper = None\<rparr> = Some 1
   \<and> OrbitData.pl_orbeccen \<lparr>plname = None, pl_orbsmax = Some 1, pl_orbeccen = Some 1.2, pl_orbincl = None, pl_orblper = None\<rparr> = Some 1.2
   \<and> PlanetRecord.pl_orbsmax \<lparr>pl_name = ''b'', pl_orbsmax = Some 1, pl_orbeccen = Some 1.2, pl_orbincl = None, pl_orblper = None, pl_rade = None\<rparr> = Some 1
   \<and> PlanetRecord.pl_orbeccen \<lparr>pl_name = ''b'', pl_orbsmax = Some 1, pl_orbeccen = Some 1.2, pl_orbincl = None, pl_orblper = None, pl_rade = None\<rparr> = Some 1.2
   \<and> (0::real) < 1 \<and> (1::real) \<le> 1.2
   \<and> (0::real) \<le> 1 \<and> 2 * (1 * 3 + 1) \<le> MAX_VALUE
   \<and> clamped_ecc (Some 1.2) = 0.95
   \<and> length (line_points (last (draw_orbit 1
         \<lparr>plname = None, pl_orbsmax = Some 1, pl_orbeccen = Some 1.2, pl_orbincl = None, pl_orblper = None\<rparr> 0 []))) = 181
   \<and> semi_minor (scaled_axis 1 1) 0.95 = Num (4 * sqrt (1 - 0.95 * 0.95))
   \<and> render_planet (\<lambda>el. [Vector3 1 2 3]) (\<lambda>el. case el of OrbitalElements sma ecc inc lper \<Rightarrow> Vector3 ecc 0 0)
          \<lparr>pl_name = ''b'', pl_orbsmax = Some 1, pl_orbeccen = Some 1.2, pl_orbincl = None, pl_orblper = None, pl_rade = None\<rparr>
          0 \<lparr>star_scene = [], planetMeshes = []\<rparr>
        = \<lparr>star_scene = [OrbitLine [Vector3 50 150 100],
                          PlanetMesh \<lparr>mesh_name = ''b'', mesh_radius = 0.5, mesh_position = Vector3 60 0 0, mesh_colour = 0\<rparr>],
           planetMeshes = [\<lparr>mesh_name = ''b'', mesh_radius = 0.5, mesh_position = Vector3 60 0 0, mesh_colour = 0\<rparr>]\<rparr>"
proof -
  let ?o = "\<lparr>plname = None, pl_orbsmax = Some 1, pl_orbeccen = Some 1.2, pl_orbincl = None, pl_orblper = None\<rparr>"
  let ?p = "\<lparr>pl_name = ''b'', pl_orbsmax = Some 1, pl_orbeccen = Some 1.2, pl_orbincl = None, pl_orblper = None, pl_rade = None\<rparr>"
  let ?peri = "\<lambda>el. case el of OrbitalElements sma ecc inc lper \<Rightarrow> Vector3 ecc 0 0"
  have h1: "OrbitData.pl_orbsmax ?o = Some 1" by simp
  have h2: "OrbitData.pl_orbeccen ?o = Some 1.2" by simp
  have h3: "PlanetRecord.pl_orbsmax ?p = Some 1" by simp
  have h4: "PlanetRecord.pl_orbeccen ?p = Some 1.2" by simp
  have h5: "(0::real) < 1" by simp
  have h6: "(1::real) \<le> 1.2" by simp
  have h7: "(0::real) \<le> 1" by simp
  have h8: "2 * (1 * 3 + 1) \<le> MAX_VALUE" using MAX_VALUE_large by simp
  note th = eccentric_record_drawn_clamped[OF h1 h2 h3 h4 h5 h6, of 1 0 "[]" "[]" "[]" "\<lambda>el. [Vector3 1 2 3]" ?peri 0
      "\<lparr>star_scene = [], planetMeshes = []\<rparr>" "[]" "[]"]
  have c1: "clamped_ecc (Some 1.2) = 0.95"
    using th[THEN conjunct1] by simp
  have c2: "length (line_points (last (draw_orbit 1 ?o 0 []))) = 181"
    using th[THEN conjunct2, THEN conjunct2, THEN conjunct1] .
  have c3: "semi_minor (scaled_axis 1 1) 0.95 = Num (4 * sqrt (1 - 0.95 * 0.95))"
    using th[THEN conjunct2, THEN conjunct2, THEN conjunct2, THEN conjunct1, rule_format, OF conjI[OF h7 h8], THEN conjunct1]
    by simp
  have c4: "render_planet (\<lambda>el. [Vector3 1 2 3]) ?peri ?p 0 \<lparr>star_scene = [], planetMeshes = []\<rparr>
        = \<lparr>star_scene = [OrbitLine [Vector3 50 150 100],
                          PlanetMesh \<lparr>mesh_name = ''b'', mesh_radius = 0.5, mesh_position = Vector3 60 0 0, mesh_colour = 0\<rparr>],
           planetMeshes = [\<lparr>mesh_name = ''b'', mesh_radius = 0.5, mesh_position = Vector3 60 0 0, mesh_colour = 0\<rparr>]\<rparr>"
    using th[THEN conjunct2, THEN conjunct2, THEN conjunct2, THEN conjunct2, THEN conjunct2, THEN conjunct2, THEN conjunct1]
    by (simp add: to_scene_def planet_label_def planetRadius_scene_def or_default_def
        EARTH_RADIUS_AU_def AU_TO_SCENE_UNITS_def SYSTEM_SCALE_def MIN_PLANET_SIZE_def)
  from h1 h2 h3 h4 h5 h6 h7 h8 c1 c2 c3 c4 show ?thesis
    by blast
qed

section \<open>Picking in the solar overview\<close>

























section \<open>Camera animations\<close>

subsection \<open>The progress counter\<close>

lemma to_real_less_1: "to_real d < 1 \<longleftrightarrow> d < 2 ^ 58"
proof -
  have "to_real d < 1 \<longleftrightarrow> real d < 2 ^ 58"
    by (simp add: to_real_def field_simps)
  also have "\<dots> \<longleftrightarrow> real d < real (2 ^ 58)"
    by simp
  also have "\<dots> \<longleftrightarrow> d < 2 ^ 58"
    by (rule of_nat_less_iff)
  finally show ?thesis .
qed

lemma to_real_le_1: "to_real d \<le> 1 \<longleftrightarrow> d \<le> 2 ^ 58"
proof -
  have "to_real d \<le> 1 \<longleftrightarrow> real d \<le> 2 ^ 58"
    by (simp add: to_real_def field_simps)
  also have "\<dots> \<longleftrightarrow> real d \<le> real (2 ^ 58)"
    by simp
  also have "\<dots> \<longleftrightarrow> d \<le> 2 ^ 58"
    by (rule of_nat_le_iff)
  finally show ?thesis .
qed

lemma ticks_Suc_end: "ticks step (Suc n) p = double_add (ticks step n p) step"
  by (induction n arbitrary: p) simp_all

lemma tick_list_nth: "k < n \<Longrightarrow> tick_list step n p ! k = ticks step (Suc k) p"
proof (induction n arbitrary: p k)
  case 0
  then show ?case by simp
next
  case (Suc n)
  show ?case
  proof (cases k)
    case 0
    then show ?thesis by simp
  next
    case (Suc j)
    with Suc.prems have "j < n" by simp
    from Suc.IH[OF this] Suc show ?thesis by simp
  qed
qed

lemma length_tick_list: "length (tick_list step n p) = n"
  by (induction n arbitrary: p) simp_all

lemma tick_list_all:
  "list_all P (tick_list step n p) \<Longrightarrow> k < n \<Longrightarrow> P (ticks step (Suc k) p)"
  using tick_list_nth[of k n step p] length_tick_list[of step n p]
  by (auto simp: list_all_length)

lemma tick_list_numeral:
  "tick_list step (numeral v) p = double_add p step # tick_list step (pred_numeral v) (double_add p step)"
  by (simp add: numeral_eq_Suc)

lemma tick_list_1: "tick_list step 1 p = [double_add p step]"
  using tick_list.simps(2)[of step 0 p] by simp

lemmas double_eval = tick_list_numeral tick_list_1 double_add_def round53_def bit_length.simps Let_def

lemma ticks_numeral:
  "ticks step (numeral v) p = ticks step (pred_numeral v) (double_add p step)"
  by (simp add: numeral_eq_Suc)

lemma ticks_1: "ticks step 1 p = double_add p step"
  using ticks.simps(2)[of step 0 p] by simp



subsection \<open>The marker transition of SolarSystemRenderer\<close>

lemma frame_idle: "frame_queue s = [] \<Longrightarrow> animation_frame s = s"
  by (simp add: animation_frame_def)

lemma frames_idle: "frame_queue s = [] \<Longrightarrow> (animation_frame ^^ n) s = s"
  by (induction n) (simp_all add: frame_idle)

lemma frame_in_flight:
  "animation_frame (in_flight callback c p s) =
     run_animation (callback (c\<lparr>progress := p\<rparr>)) ((in_flight callback c p s)\<lparr>frame_queue := []\<rparr>)"
  by (simp add: animation_frame_def in_flight_def)







lemma cancel_existing_fields:
  "camera_position (cancel_existing s) = camera_position s"
  "controls_target (cancel_existing s) = controls_target s"
  "next_handle (cancel_existing s) = next_handle s"
  "console (cancel_existing s) = console s"
  "currentView (cancel_existing s) = currentView s"
  "selectedSystem (cancel_existing s) = selectedSystem s"
  "focusedPlanet (cancel_existing s) = focusedPlanet s"
  "isTransitioning (cancel_existing s) = isTransitioning s"
  by (simp_all add: cancel_existing_def cancelAnimationFrame_def split: option.splits)

lemma cancel_existing_queue: "solar_inv s \<Longrightarrow> frame_queue (cancel_existing s) = []"
  by (cases "frame_queue s")
     (auto simp: solar_inv_def cancel_existing_def cancelAnimationFrame_def split: option.splits)

lemma solar_inv_update:
  "solar_inv (s\<lparr>isTransitioning := b\<rparr>) = solar_inv s"
  "solar_inv (s\<lparr>console := l\<rparr>) = solar_inv s"
  "solar_inv (s\<lparr>focusedPlanet := f\<rparr>) = solar_inv s"
  by (simp_all add: solar_inv_def split: option.splits)



lemma in_flight_fields:
  "currentView (in_flight cb c p s) = currentView s"
  "selectedSystem (in_flight cb c p s) = selectedSystem s"
  "console (in_flight cb c p s) = console s"
  "focusedPlanet (in_flight cb c p s) = focusedPlanet s"
  "isTransitioning (in_flight cb c p s) = isTransitioning s"
  "frame_queue (in_flight cb c p s) = [(next_handle s, cb (c\<lparr>progress := p\<rparr>))]"
  "camera_position (in_flight cb c p s) = lerpVectors (startPos c) (newCameraPos c) (to_real p)"
  "controls_target (in_flight cb c p s) = lerpVectors (startTarget c) (endTarget c) (to_real p)"
  by (simp_all add: in_flight_def)








subsection \<open>The click animation of StarRenderer\<close>

lemma early_0_02: "list_all (\<lambda>v. v \<le> 2 ^ 58) (tick_list d_0_02 49 0)"
  by (simp add: double_eval d_0_02_def)

lemma tick_49_0_02: "ticks d_0_02 49 0 = 282465768628677664"
  by (simp add: ticks_numeral ticks_1 double_add_def round53_def bit_length.simps Let_def d_0_02_def)

lemma tick_50_0_02: "ticks d_0_02 50 0 = 288230376151711872"
  by (simp add: ticks_numeral ticks_1 double_add_def round53_def bit_length.simps Let_def d_0_02_def)

lemma first_tick_0_02: "double_add 0 d_0_02 = d_0_02" "to_real d_0_02 \<le> 1"
  by (simp_all add: double_add_def round53_def bit_length.simps d_0_02_def to_real_le_1)

lemma star_animateCamera_continues:
  "frame_queue s = [] \<Longrightarrow> to_real (double_add (progress c) d_0_02) \<le> 1 \<Longrightarrow>
   star_animateCamera c s = star_in_flight c (double_add (progress c) d_0_02) s"
  by (simp add: star_animateCamera_def star_in_flight_def requestAnimationFrame_def Let_def)

lemma star_animateCamera_appends:
  "to_real (double_add (progress c) d_0_02) \<le> 1 \<Longrightarrow>
   frame_queue (star_animateCamera c s) =
     frame_queue s @ [(next_handle s, StarFocus (c\<lparr>progress := double_add (progress c) d_0_02\<rparr>))]"
  by (simp add: star_animateCamera_def requestAnimationFrame_def Let_def)

lemma frame_star_in_flight:
  "animation_frame (star_in_flight c p s) =
     star_animateCamera (c\<lparr>progress := p\<rparr>) ((star_in_flight c p s)\<lparr>frame_queue := []\<rparr>)"
  by (simp add: animation_frame_def star_in_flight_def)

lemma star_frame_continues:
  "to_real (double_add p d_0_02) \<le> 1 \<Longrightarrow>
   animation_frame (star_in_flight c p s) =
     star_in_flight c (double_add p d_0_02) (s\<lparr>next_handle := next_handle s + 1\<rparr>)"
  by (simp only: frame_star_in_flight)
    (simp add: star_animateCamera_def star_in_flight_def requestAnimationFrame_def Let_def)

lemma star_frame_stops:
  "\<not> to_real (double_add p d_0_02) \<le> 1 \<Longrightarrow>
   animation_frame (star_in_flight c p s) = (star_in_flight c p s)\<lparr>frame_queue := []\<rparr>"
  by (simp only: frame_star_in_flight)
    (simp add: star_animateCamera_def star_in_flight_def Let_def)

lemma star_frames:
  "(\<forall>k<n. to_real (ticks d_0_02 (Suc k) p) \<le> 1) \<Longrightarrow>
   (animation_frame ^^ n) (star_in_flight c p s) =
     star_in_flight c (ticks d_0_02 n p) (s\<lparr>next_handle := next_handle s + n\<rparr>)"
proof (induction n)
  case 0
  show ?case by simp
next
  case (Suc n)
  from Suc.prems have "\<forall>k<n. to_real (ticks d_0_02 (Suc k) p) \<le> 1"
    by simp
  from Suc.IH[OF this]
  have run: "(animation_frame ^^ n) (star_in_flight c p s) =
     star_in_flight c (ticks d_0_02 n p) (s\<lparr>next_handle := next_handle s + n\<rparr>)" .
  from Suc.prems have "to_real (ticks d_0_02 (Suc n) p) \<le> 1"
    by simp
  then have "to_real (double_add (ticks d_0_02 n p) d_0_02) \<le> 1"
    by (simp only: ticks_Suc_end)
  from star_frame_continues[OF this, of c "s\<lparr>next_handle := next_handle s + n\<rparr>"]
  show ?case
    by (simp add: run ticks_Suc_end del: ticks.simps)
qed

lemma star_onClick_hit:
  "intersectObjects ray planetObjects = hit # others \<Longrightarrow>
   star_onClick ray planetObjects s =
     star_animateCamera
       \<lparr>startPos = camera_position s, startTarget = controls_target s,
        newCameraPos = Vector3 (vx (mesh_position (snd hit)) + 50)
                               (vy (mesh_position (snd hit)) + 50 * 0.5)
                               (vz (mesh_position (snd hit)) + 50),
        endTarget = mesh_position (snd hit), progress = 0\<rparr>
       (s\<lparr>focusedPlanet := Some (mesh_name (snd hit))\<rparr>)"
  by (simp add: star_onClick_def Let_def)

lemma star_onClick_keeps_queue:
  "intersectObjects ray planetObjects = hit # others \<Longrightarrow>
   frame_queue (star_onClick ray planetObjects s) =
     frame_queue s @
       [(next_handle s,
         StarFocus \<lparr>startPos = camera_position s, startTarget = controls_target s,
            newCameraPos = Vector3 (vx (mesh_position (snd hit)) + 50)
                                   (vy (mesh_position (snd hit)) + 50 * 0.5)
                                   (vz (mesh_position (snd hit)) + 50),
            endTarget = mesh_position (snd hit), progress = d_0_02\<rparr>)]"
  by (simp add: star_onClick_hit star_animateCamera_appends first_tick_0_02)

lemma hit_b: "intersectObjects ray_b [planet_b] = (280, planet_b) # [(281, planet_b)]"
  by (simp add: intersectObjects_def ray_b_def)


lemma lerp_short:
  "t < 1 \<Longrightarrow> vx (lerpVectors (Vector3 0 y z) (Vector3 100 y' z') t) < 100"
  by (simp add: lerpVectors_def)

text \<open>
  Claim C4 at a click on planet \<open>b\<close> in the star view. The animation of StarRenderer has
  no final branch: it ticks while \<^verbatim>\<open>progress <= 1\<close>. The binary64 sum of fifty times
  \<^verbatim>\<open>0.02\<close> is above 1, so tick 50 neither moves the camera nor requests a frame: from frame
  49 on nothing is queued, the camera stays at the pose interpolated at tick 49
  (progress below 1), which is not the end position \<open>(100, 25, 50)\<close>, and no completion
  action has run.
\<close>

theorem star_click_animation_stops_short:
  "to_real (ticks d_0_02 49 0) < 1
   \<and> \<not> to_real (ticks d_0_02 50 0) \<le> 1
   \<and> frame_queue ((animation_frame ^^ (49 + n)) (star_onClick ray_b [planet_b] star_initial)) = []
   \<and> camera_position ((animation_frame ^^ (49 + n)) (star_onClick ray_b [planet_b] star_initial))
       = lerpVectors (Vector3 0 99 330) (Vector3 100 25 50) (to_real (ticks d_0_02 49 0))
   \<and> camera_position ((animation_frame ^^ (49 + n)) (star_onClick ray_b [planet_b] star_initial))
       \<noteq> Vector3 100 25 50
   \<and> controls_target ((animation_frame ^^ (49 + n)) (star_onClick ray_b [planet_b] star_initial))
       = lerpVectors (Vector3 0 0 0) (Vector3 50 0 0) (to_real (ticks d_0_02 49 0))
   \<and> console ((animation_frame ^^ (49 + n)) (star_onClick ray_b [planet_b] star_initial)) = []"
proof -
  let ?c = "\<lparr>startPos = Vector3 0 99 330, startTarget = Vector3 0 0 0,
             newCameraPos = Vector3 100 25 50, endTarget = Vector3 50 0 0, progress = 0\<rparr>"
  let ?s = "star_initial\<lparr>focusedPlanet := Some ''b''\<rparr>"
  let ?s1 = "star_onClick ray_b [planet_b] star_initial"
  have short: "to_real (ticks d_0_02 49 0) < 1"
    by (simp only: tick_49_0_02 to_real_less_1) simp
  have over: "\<not> to_real (ticks d_0_02 50 0) \<le> 1"
    by (simp only: tick_50_0_02 to_real_le_1) simp
  have tk: "ticks d_0_02 k d_0_02 = ticks d_0_02 (Suc k) 0" for k
    using first_tick_0_02(1) by simp
  have click: "?s1 = star_in_flight ?c d_0_02 ?s"
  proof -
    have "?s1 = star_animateCamera ?c ?s"
      by (simp only: star_onClick_hit[OF hit_b]) (simp add: star_initial_def planet_b_def)
    also have "\<dots> = star_in_flight ?c d_0_02 ?s"
      using star_animateCamera_continues[of ?s ?c] first_tick_0_02
      by (simp add: star_initial_def)
    finally show ?thesis .
  qed
  have early: "\<forall>k<48. to_real (ticks d_0_02 (Suc k) d_0_02) \<le> 1"
  proof (intro allI impI)
    fix k :: nat assume "k < 48"
    then have "Suc k < 49" by simp
    from tick_list_all[OF early_0_02 this] show "to_real (ticks d_0_02 (Suc k) d_0_02) \<le> 1"
      by (simp only: tk to_real_le_1)
  qed
  have t49: "ticks d_0_02 48 d_0_02 = ticks d_0_02 49 0"
  proof -
    have "Suc 48 = (49::nat)" by simp
    with tk[of 48] show ?thesis by simp
  qed
  have r48: "(animation_frame ^^ 48) ?s1 =
      star_in_flight ?c (ticks d_0_02 49 0) (?s\<lparr>next_handle := next_handle ?s + 48\<rparr>)"
    using star_frames[OF early, of ?c ?s] by (simp only: click t49)
  have t50: "double_add (ticks d_0_02 49 0) d_0_02 = ticks d_0_02 50 0"
  proof -
    have "(50::nat) = Suc 49" by simp
    then show ?thesis by (simp only: ticks_Suc_end)
  qed
  have stop: "\<not> to_real (double_add (ticks d_0_02 49 0) d_0_02) \<le> 1"
    using over unfolding t50 .
  have n49: "(animation_frame ^^ 49) ?s1 = animation_frame ((animation_frame ^^ 48) ?s1)"
  proof -
    have "(49::nat) = Suc 48" by simp
    then show ?thesis by (simp only: funpow.simps o_apply)
  qed
  have r49: "(animation_frame ^^ 49) ?s1 =
      (star_in_flight ?c (ticks d_0_02 49 0) (?s\<lparr>next_handle := next_handle ?s + 48\<rparr>))\<lparr>frame_queue := []\<rparr>"
    unfolding n49 r48 by (rule star_frame_stops[OF stop])
  have q49: "frame_queue ((animation_frame ^^ 49) ?s1) = []"
    unfolding r49 by simp
  have "(animation_frame ^^ (49 + n)) ?s1 = (animation_frame ^^ n) ((animation_frame ^^ 49) ?s1)"
    by (simp only: add.commute[of 49 n] funpow_add o_apply)
  also have "\<dots> = (animation_frame ^^ 49) ?s1"
    using q49 by (rule frames_idle)
  finally have final: "(animation_frame ^^ (49 + n)) ?s1 =
      (star_in_flight ?c (ticks d_0_02 49 0) (?s\<lparr>next_handle := next_handle ?s + 48\<rparr>))\<lparr>frame_queue := []\<rparr>"
    by (simp only: r49)
  have cam: "camera_position ((animation_frame ^^ (49 + n)) ?s1)
       = lerpVectors (Vector3 0 99 330) (Vector3 100 25 50) (to_real (ticks d_0_02 49 0))"
    unfolding final by (simp add: star_in_flight_def)
  have "vx (camera_position ((animation_frame ^^ (49 + n)) ?s1)) < 100"
    unfolding cam using short by (rule lerp_short)
  then have ne: "camera_position ((animation_frame ^^ (49 + n)) ?s1) \<noteq> Vector3 100 25 50"
    by auto
  have tgt: "controls_target ((animation_frame ^^ (49 + n)) ?s1)
       = lerpVectors (Vector3 0 0 0) (Vector3 50 0 0) (to_real (ticks d_0_02 49 0))"
    unfolding final by (simp add: star_in_flight_def)
  have q: "frame_queue ((animation_frame ^^ (49 + n)) ?s1) = []"
    unfolding final by simp
  have con: "console ((animation_frame ^^ (49 + n)) ?s1) = []"
    unfolding final by (simp add: star_in_flight_def star_initial_def)
  from short over q cam ne tgt con show ?thesis
    by blast
qed

lemma console_star_animateCamera: "console (star_animateCamera c s) = console s"
  by (simp add: star_animateCamera_def requestAnimationFrame_def Let_def)

lemma console_star_onClick: "console (star_onClick ray planetObjects s) = console s"
  by (simp add: star_onClick_def Let_def console_star_animateCamera split: list.splits)

lemma frame_two:
  "frame_queue s = [e1, e2] \<Longrightarrow>
   animation_frame s = run_animation (snd e2) (run_animation (snd e1) (s\<lparr>frame_queue := []\<rparr>))"
  by (simp add: animation_frame_def)

text \<open>
  Claim C3 at a click on planet \<open>b\<close>, one frame, and a second click on \<open>b\<close> in the star
  view: the handler of StarRenderer cancels nothing, so after the second click two
  animations are requested, the first at its second tick and from the original camera
  position, the second at its first tick and from the pose the camera had at the click;
  both run and request again in the next frame, and nothing has been logged.
\<close>

theorem star_second_click_leaves_first_running:
  "map (\<lambda>e. progress (closure_of (snd e)))
       (frame_queue (star_onClick ray_b [planet_b] (animation_frame (star_onClick ray_b [planet_b] star_initial))))
     = [ticks d_0_02 2 0, ticks d_0_02 1 0]
   \<and> map (\<lambda>e. startPos (closure_of (snd e)))
       (frame_queue (star_onClick ray_b [planet_b] (animation_frame (star_onClick ray_b [planet_b] star_initial))))
     = [Vector3 0 99 330, lerpVectors (Vector3 0 99 330) (Vector3 100 25 50) (to_real (ticks d_0_02 2 0))]
   \<and> length (frame_queue (animation_frame
        (star_onClick ray_b [planet_b] (animation_frame (star_onClick ray_b [planet_b] star_initial))))) = 2
   \<and> console (animation_frame
        (star_onClick ray_b [planet_b] (animation_frame (star_onClick ray_b [planet_b] star_initial)))) = []"
proof -
  let ?cb = "\<lparr>startPos = Vector3 0 99 330, startTarget = Vector3 0 0 0,
             newCameraPos = Vector3 100 25 50, endTarget = Vector3 50 0 0, progress = 0\<rparr>"
  let ?s = "star_initial\<lparr>focusedPlanet := Some ''b''\<rparr>"
  let ?s1 = "star_onClick ray_b [planet_b] star_initial"
  let ?s2 = "animation_frame ?s1"
  let ?s3 = "star_onClick ray_b [planet_b] ?s2"
  have t1: "ticks d_0_02 1 0 = d_0_02"
    by (simp add: ticks_1 first_tick_0_02)
  have d2: "double_add d_0_02 d_0_02 = 11529215046068470"
    by (simp add: double_add_def round53_def bit_length.simps Let_def d_0_02_def)
  have t2: "ticks d_0_02 2 0 = 11529215046068470"
    by (simp add: ticks_numeral ticks_1 first_tick_0_02 d2)
  have d3: "double_add 11529215046068470 d_0_02 = 17293822569102704"
    by (simp add: double_add_def round53_def bit_length.simps Let_def d_0_02_def)
  have le: "to_real 11529215046068470 \<le> 1" "to_real 17293822569102704 \<le> 1"
    by (simp_all add: to_real_le_1)
  have click: "?s1 = star_in_flight ?cb d_0_02 ?s"
  proof -
    have "?s1 = star_animateCamera ?cb ?s"
      by (simp only: star_onClick_hit[OF hit_b]) (simp add: star_initial_def planet_b_def)
    also have "\<dots> = star_in_flight ?cb d_0_02 ?s"
      using star_animateCamera_continues[of ?s ?cb] first_tick_0_02
      by (simp add: star_initial_def)
    finally show ?thesis .
  qed
  have s2: "?s2 = star_in_flight ?cb 11529215046068470 (?s\<lparr>next_handle := next_handle ?s + 1\<rparr>)"
    unfolding click using star_frame_continues[of d_0_02 ?cb ?s] le by (simp add: d2)
  have q2: "frame_queue ?s2 = [(2, StarFocus (?cb\<lparr>progress := 11529215046068470\<rparr>))]"
    unfolding s2 by (simp add: star_in_flight_def star_initial_def)
  have cam2: "camera_position ?s2 = lerpVectors (Vector3 0 99 330) (Vector3 100 25 50) (to_real 11529215046068470)"
    unfolding s2 by (simp add: star_in_flight_def)
  note q3 = star_onClick_keeps_queue[OF hit_b, of ?s2]
  have progresses: "map (\<lambda>e. progress (closure_of (snd e))) (frame_queue ?s3)
      = [ticks d_0_02 2 0, ticks d_0_02 1 0]"
    unfolding q3 q2 by (simp add: t2 first_tick_0_02)
  have starts: "map (\<lambda>e. startPos (closure_of (snd e))) (frame_queue ?s3)
      = [Vector3 0 99 330, lerpVectors (Vector3 0 99 330) (Vector3 100 25 50) (to_real (ticks d_0_02 2 0))]"
    unfolding q3 q2 by (simp add: t2 cam2)
  obtain h2 c2 where q3': "frame_queue ?s3 = [(2, StarFocus (?cb\<lparr>progress := 11529215046068470\<rparr>)), (h2, StarFocus c2)]"
    and p2: "progress c2 = d_0_02"
    unfolding q3 q2 by simp
  have con3: "console ?s3 = []"
    unfolding console_star_onClick s2 by (simp add: star_in_flight_def star_initial_def)
  have f3: "animation_frame ?s3 =
      star_animateCamera c2 (star_animateCamera (?cb\<lparr>progress := 11529215046068470\<rparr>) (?s3\<lparr>frame_queue := []\<rparr>))"
    using frame_two[OF q3'] by simp
  have len: "length (frame_queue (animation_frame ?s3)) = 2"
    unfolding f3 using le by (simp add: star_animateCamera_appends p2 d2 d3)
  have con: "console (animation_frame ?s3) = []"
    unfolding f3 by (simp add: console_star_animateCamera con3)
  from progresses starts len con show ?thesis
    by blast
qed

subsection \<open>SolarSystemRenderer keeps one animation per camera\<close>

text \<open>
  The sibling path: every handler of SolarSystemRenderer cancels the requested frame before
  it starts an animation, so the queue discipline is kept by every event, a superseded
  animation never runs again, the new one starts from the camera's current pose, and
  \<^verbatim>\<open>focusPlanet\<close> ends by setting the exact end pose and logging its completion once.
\<close>

lemma solar_inv_idle: "frame_queue s = [] \<Longrightarrow> animationFrameRef s = None \<Longrightarrow> solar_inv s"
  by (simp add: solar_inv_def)

lemma solar_inv_animateCamera: "frame_queue s = [] \<Longrightarrow> solar_inv (animateCamera c s)"
  by (simp add: animateCamera_def solar_inv_def requestAnimationFrame_def Let_def)

lemma solar_inv_animateTransition: "frame_queue s = [] \<Longrightarrow> solar_inv (animateTransition c targetSystem s)"
  by (simp add: animateTransition_def solar_inv_def requestAnimationFrame_def handleSystemClick_def Let_def)

lemma solar_inv_animateBack: "frame_queue s = [] \<Longrightarrow> solar_inv (animateBack c s)"
  by (simp add: animateBack_def solar_inv_def requestAnimationFrame_def Let_def)

lemma solar_inv_focusPlanet: "solar_inv s \<Longrightarrow> solar_inv (focusPlanet nm pos rad s)"
  by (simp add: focusPlanet_def Let_def solar_inv_animateCamera cancel_existing_queue solar_inv_update)

lemma solar_inv_start_transition: "solar_inv s \<Longrightarrow> solar_inv (start_transition sc index s)"
  by (simp add: start_transition_def Let_def solar_inv_animateTransition cancel_existing_queue solar_inv_update)

lemma solar_inv_handleBackToSystem: "solar_inv s \<Longrightarrow> solar_inv (handleBackToSystem s)"
  by (simp add: handleBackToSystem_def Let_def solar_inv_animateBack cancel_existing_queue solar_inv_update)

lemma solar_inv_frame:
  assumes "solar_inv s"
  shows "solar_inv (animation_frame s)"
proof (cases "animationFrameRef s")
  case None
  with assms have "frame_queue s = []"
    by (simp add: solar_inv_def)
  with assms show ?thesis
    by (simp add: frame_idle)
next
  case (Some h)
  with assms obtain a where q: "frame_queue s = [(h, a)]" and a: "solar_animation a"
    by (cases "frame_queue s") (auto simp: solar_inv_def)
  have "animation_frame s = run_animation a (s\<lparr>frame_queue := []\<rparr>)"
    by (simp add: animation_frame_def q)
  moreover have "solar_inv (run_animation a (s\<lparr>frame_queue := []\<rparr>))"
    using a
    by (cases a) (simp_all add: solar_inv_animateCamera solar_inv_animateTransition solar_inv_animateBack)
  ultimately show ?thesis
    by simp
qed

lemma solar_inv_onClick: "solar_inv s \<Longrightarrow> solar_inv (solar_onClick ray sc s)"
  by (simp add: solar_onClick_def Let_def solar_inv_focusPlanet solar_inv_start_transition solar_inv_update
      split: list.splits)

lemma solar_inv_onMouseMove: "solar_inv s \<Longrightarrow> solar_inv (solar_onMouseMove client ray sc s)"
  by (simp add: solar_onMouseMove_def Let_def solar_inv_def split: list.splits option.splits)

lemma solar_at_most_one_live: "solar_inv s \<Longrightarrow> length (frame_queue s) \<le> 1"
proof (cases "animationFrameRef s")
  case None
  assume "solar_inv s"
  with None show ?thesis by (simp add: solar_inv_def)
next
  case (Some h)
  assume "solar_inv s"
  with Some have "length (map fst (frame_queue s)) = 1"
    by (simp add: solar_inv_def)
  then show ?thesis by simp
qed


lemma early_0_04: "list_all (\<lambda>v. v < 2 ^ 58) (tick_list d_0_04 24 0)"
  by (simp add: double_eval d_0_04_def)

lemma tick_25_0_04: "ticks d_0_04 25 0 = 288230376151711808"
  by (simp add: ticks_numeral ticks_1 double_add_def round53_def bit_length.simps Let_def d_0_04_def)

lemma first_tick_0_04: "double_add 0 d_0_04 = d_0_04" "to_real d_0_04 < 1"
  by (simp_all add: double_add_def round53_def bit_length.simps d_0_04_def to_real_less_1)

lemma animateCamera_continues:
  "frame_queue s = [] \<Longrightarrow> to_real (double_add (progress c) d_0_04) < 1 \<Longrightarrow>
   animateCamera c s = in_flight SolarFocus c (double_add (progress c) d_0_04) s"
  by (simp add: animateCamera_def in_flight_def requestAnimationFrame_def Let_def)

lemma focus_frame_continues:
  "to_real (double_add p d_0_04) < 1 \<Longrightarrow>
   animation_frame (in_flight SolarFocus c p s) =
     in_flight SolarFocus c (double_add p d_0_04) (s\<lparr>next_handle := next_handle s + 1\<rparr>)"
  by (simp only: frame_in_flight)
    (simp add: animateCamera_def in_flight_def requestAnimationFrame_def Let_def)

lemma focus_frame_completes:
  "\<not> to_real (double_add p d_0_04) < 1 \<Longrightarrow>
   animation_frame (in_flight SolarFocus c p s) =
     s\<lparr>camera_position := newCameraPos c,
       controls_target := endTarget c,
       frame_queue := [],
       next_handle := next_handle s + 1,
       animationFrameRef := None,
       isTransitioning := False,
       console := console s @ [AnimationComplete]\<rparr>"
  by (simp only: frame_in_flight)
    (simp add: animateCamera_def in_flight_def Let_def)

lemma focus_frames:
  "(\<forall>k<n. to_real (ticks d_0_04 (Suc k) p) < 1) \<Longrightarrow>
   (animation_frame ^^ n) (in_flight SolarFocus c p s) =
     in_flight SolarFocus c (ticks d_0_04 n p) (s\<lparr>next_handle := next_handle s + n\<rparr>)"
proof (induction n)
  case 0
  show ?case by simp
next
  case (Suc n)
  from Suc.prems have "\<forall>k<n. to_real (ticks d_0_04 (Suc k) p) < 1"
    by simp
  from Suc.IH[OF this]
  have run: "(animation_frame ^^ n) (in_flight SolarFocus c p s) =
     in_flight SolarFocus c (ticks d_0_04 n p) (s\<lparr>next_handle := next_handle s + n\<rparr>)" .
  from Suc.prems have "to_real (ticks d_0_04 (Suc n) p) < 1"
    by simp
  then have "to_real (double_add (ticks d_0_04 n p) d_0_04) < 1"
    by (simp only: ticks_Suc_end)
  from focus_frame_continues[OF this, of c "s\<lparr>next_handle := next_handle s + n\<rparr>"]
  show ?case
    by (simp add: run ticks_Suc_end del: ticks.simps)
qed

lemma focusPlanet_in_flight:
  assumes "solar_inv s"
  shows "focusPlanet nm pos rad s =
     in_flight SolarFocus
       \<lparr>startPos = camera_position s, startTarget = controls_target s,
        newCameraPos = Vector3 (vx pos + max (rad * 8) 5) (vy pos + max (rad * 8) 5 * 0.5)
                               (vz pos + max (rad * 8) 5),
        endTarget = pos, progress = 0\<rparr>
       d_0_04
       (cancel_existing (s\<lparr>console := console s @ [FocusingOnPlanet nm],
                           focusedPlanet := Some nm, isTransitioning := True\<rparr>))"
proof -
  let ?s1 = "s\<lparr>console := console s @ [FocusingOnPlanet nm], focusedPlanet := Some nm, isTransitioning := True\<rparr>"
  have "solar_inv ?s1"
    using assms by (simp add: solar_inv_def split: option.splits)
  then have q: "frame_queue (cancel_existing ?s1) = []"
    by (rule cancel_existing_queue)
  show ?thesis
    by (simp add: focusPlanet_def Let_def cancel_existing_fields
        animateCamera_continues[OF q] first_tick_0_04)
qed

lemma solar_focus_supersedes:
  assumes "solar_inv s"
  shows "\<exists>c. frame_queue (focusPlanet nm pos rad s) = [(next_handle s, SolarFocus c)]
     \<and> startPos c = camera_position s \<and> startTarget c = controls_target s \<and> endTarget c = pos"
  by (simp add: focusPlanet_in_flight[OF assms] in_flight_fields cancel_existing_fields)

lemma solar_focus_completes:
  assumes inv: "solar_inv s"
  shows "(\<forall>n<24. (\<exists>h c. frame_queue ((animation_frame ^^ n) (focusPlanet nm pos rad s)) = [(h, SolarFocus c)])
            \<and> console ((animation_frame ^^ n) (focusPlanet nm pos rad s)) = console s @ [FocusingOnPlanet nm]
            \<and> isTransitioning ((animation_frame ^^ n) (focusPlanet nm pos rad s)))
     \<and> (\<forall>n\<ge>24.
            camera_position ((animation_frame ^^ n) (focusPlanet nm pos rad s))
              = Vector3 (vx pos + max (rad * 8) 5) (vy pos + max (rad * 8) 5 * 0.5) (vz pos + max (rad * 8) 5)
          \<and> controls_target ((animation_frame ^^ n) (focusPlanet nm pos rad s)) = pos
          \<and> frame_queue ((animation_frame ^^ n) (focusPlanet nm pos rad s)) = []
          \<and> \<not> isTransitioning ((animation_frame ^^ n) (focusPlanet nm pos rad s))
          \<and> console ((animation_frame ^^ n) (focusPlanet nm pos rad s))
              = console s @ [FocusingOnPlanet nm, AnimationComplete])"
proof -
  let ?c = "\<lparr>startPos = camera_position s, startTarget = controls_target s,
        newCameraPos = Vector3 (vx pos + max (rad * 8) 5) (vy pos + max (rad * 8) 5 * 0.5)
                               (vz pos + max (rad * 8) 5),
        endTarget = pos, progress = 0\<rparr>"
  let ?s = "cancel_existing (s\<lparr>console := console s @ [FocusingOnPlanet nm],
                           focusedPlanet := Some nm, isTransitioning := True\<rparr>)"
  let ?run = "\<lambda>n. (animation_frame ^^ n) (focusPlanet nm pos rad s)"
  have start: "focusPlanet nm pos rad s = in_flight SolarFocus ?c d_0_04 ?s"
    using focusPlanet_in_flight[OF inv] .
  have tk: "ticks d_0_04 k d_0_04 = ticks d_0_04 (Suc k) 0" for k
    using first_tick_0_04(1) by simp
  have early: "to_real (ticks d_0_04 (Suc k) 0) < 1" if "k < 24" for k
    using tick_list_all[OF early_0_04 that] by (simp only: to_real_less_1)
  have running: "?run n = in_flight SolarFocus ?c (ticks d_0_04 (Suc n) 0) (?s\<lparr>next_handle := next_handle ?s + n\<rparr>)"
    if "n < 24" for n
  proof -
    have "\<forall>k<n. to_real (ticks d_0_04 (Suc k) d_0_04) < 1"
    proof (intro allI impI)
      fix k assume "k < n"
      with that have "Suc k < 24" by simp
      from early[OF this] show "to_real (ticks d_0_04 (Suc k) d_0_04) < 1"
        by (simp only: tk)
    qed
    from focus_frames[OF this, of ?c ?s] show ?thesis
      by (simp only: start tk)
  qed
  have part1: "\<forall>n<24. (\<exists>h c. frame_queue (?run n) = [(h, SolarFocus c)])
            \<and> console (?run n) = console s @ [FocusingOnPlanet nm]
            \<and> isTransitioning (?run n)"
    by (simp add: running in_flight_fields cancel_existing_fields)
  have late: "\<not> to_real (ticks d_0_04 25 0) < 1"
    by (simp only: tick_25_0_04 to_real_less_1) simp
  have n25: "ticks d_0_04 25 0 = double_add (ticks d_0_04 24 0) d_0_04"
  proof -
    have "(25::nat) = Suc 24" by simp
    then show ?thesis by (simp only: ticks_Suc_end)
  qed
  have stop: "\<not> to_real (double_add (ticks d_0_04 24 0) d_0_04) < 1"
    using late unfolding n25 .
  have n24: "?run 24 = animation_frame (?run 23)"
  proof -
    have "(24::nat) = Suc 23" by simp
    then show ?thesis by (simp only: funpow.simps o_apply)
  qed
  have r23: "?run 23 = in_flight SolarFocus ?c (ticks d_0_04 24 0) (?s\<lparr>next_handle := next_handle ?s + 23\<rparr>)"
  proof -
    have "Suc 23 = (24::nat)" by simp
    with running[of 23] show ?thesis by simp
  qed
  have done24: "camera_position (?run 24)
        = Vector3 (vx pos + max (rad * 8) 5) (vy pos + max (rad * 8) 5 * 0.5) (vz pos + max (rad * 8) 5)"
      "controls_target (?run 24) = pos"
      "frame_queue (?run 24) = []"
      "\<not> isTransitioning (?run 24)"
      "console (?run 24) = console s @ [FocusingOnPlanet nm, AnimationComplete]"
    unfolding n24 r23 focus_frame_completes[OF stop]
    by (simp_all add: cancel_existing_fields)
  have part2: "\<forall>n\<ge>24.
            camera_position (?run n)
              = Vector3 (vx pos + max (rad * 8) 5) (vy pos + max (rad * 8) 5 * 0.5) (vz pos + max (rad * 8) 5)
          \<and> controls_target (?run n) = pos
          \<and> frame_queue (?run n) = []
          \<and> \<not> isTransitioning (?run n)
          \<and> console (?run n) = console s @ [FocusingOnPlanet nm, AnimationComplete]"
  proof (intro allI impI)
    fix n :: nat assume "24 \<le> n"
    then obtain m where n: "n = m + 24"
      using le_Suc_ex[of 24 n] by (auto simp: add.commute)
    have "?run n = (animation_frame ^^ m) (?run 24)"
      by (simp only: n funpow_add o_apply)
    also have "\<dots> = ?run 24"
      using done24(3) by (rule frames_idle)
    finally show "camera_position (?run n)
              = Vector3 (vx pos + max (rad * 8) 5) (vy pos + max (rad * 8) 5 * 0.5) (vz pos + max (rad * 8) 5)
          \<and> controls_target (?run n) = pos
          \<and> frame_queue (?run n) = []
          \<and> \<not> isTransitioning (?run n)
          \<and> console (?run n) = console s @ [FocusingOnPlanet nm, AnimationComplete]"
      using done24 by simp
  qed
  from part1 part2 show ?thesis
    by blast
qed


end
